theory Spec2Isabelle
  imports Main "HOL-Library.Word" "HOL-Library.Sublist"
begin

section \<open>The XMPP mail-notification client of zond/gmail\<close>

text \<open>
  A shallow embedding of \<^verbatim>\<open>xmpp/xmpp.go\<close>; line numbers are those of that
  file. Go strings are byte sequences, so they are modelled as \<^typ>\<open>string\<close>
  (lists of 8-bit characters): \<^verbatim>\<open>len(s)\<close> is \<^term>\<open>length s\<close> and
  \<^verbatim>\<open>s[i]\<close> is \<^term>\<open>s ! i\<close> where the index is in range.

  The repository holds an older copy of the client in its root package. There
  \<^verbatim>\<open>xmlEscape\<close>, \<^verbatim>\<open>saslDigestResponse\<close>, \<^verbatim>\<open>cnonce\<close>,
  \<^verbatim>\<open>nextStart\<close>, \<^verbatim>\<open>next\<close> and the steps of \<^verbatim>\<open>init\<close> are the same
  code (the bind request can also name a resource); its \<^verbatim>\<open>handleMail\<close> has no
  callbacks: it prints, and on any error of \<^verbatim>\<open>next\<close> it closes and starts again.
\<close>

subsection \<open>Outbound text escaping\<close>

text \<open>
  \<^verbatim>\<open>var xmlSpecial = map[byte]string{...}\<close>: the five bytes with an entity.
  \<^verbatim>\<open>0x22\<close> is the double quote and \<^verbatim>\<open>0x27\<close> the apostrophe.
\<close>

definition xmlSpecial :: "char \<rightharpoonup> string" where
  "xmlSpecial =
     [CHR ''<'' \<mapsto> ''&lt;'',
      CHR ''>'' \<mapsto> ''&gt;'',
      CHR 0x22 \<mapsto> ''&quot;'',
      CHR 0x27 \<mapsto> ''&apos;'',
      CHR ''&'' \<mapsto> ''&amp;'']"

text \<open>
  The body of \<^verbatim>\<open>xmlEscape\<close> is the loop
  \<^verbatim>\<open>for i := 0; i < len(s); i++\<close> over a \<^verbatim>\<open>bytes.Buffer\<close>;
  \<open>b\<close> is the buffer's content so far.
\<close>

function xmlEscape_loop :: "string \<Rightarrow> nat \<Rightarrow> string \<Rightarrow> string" where
  "xmlEscape_loop s i b =
     (if i < length s then
        (let c = s ! i in
         case xmlSpecial c of
           Some e \<Rightarrow> xmlEscape_loop s (i + 1) (b @ e)
         | None \<Rightarrow> xmlEscape_loop s (i + 1) (b @ [c]))
      else b)"
  by pat_completeness auto
termination
  by (relation "measure (\<lambda>(s, i, b). length s - i)") auto

definition xmlEscape :: "string \<Rightarrow> string" where
  "xmlEscape s = xmlEscape_loop s 0 []"

text \<open>
  The escaping table as the specification words it, one byte at a time.
\<close>

definition escape_byte :: "char \<Rightarrow> string" where
  "escape_byte c =
     (if c = CHR ''<'' then ''&lt;''
      else if c = CHR ''>'' then ''&gt;''
      else if c = CHR 0x22 then ''&quot;''
      else if c = CHR 0x27 then ''&apos;''
      else if c = CHR ''&'' then ''&amp;''
      else [c])"

definition xml_special_bytes :: "char set" where
  "xml_special_bytes = {CHR ''<'', CHR ''>'', CHR 0x22, CHR 0x27, CHR ''&''}"

subsection \<open>The Go library functions the client calls\<close>

text \<open>
  \<^verbatim>\<open>strings.Split(s, sep)\<close> and \<^verbatim>\<open>strings.SplitN(s, sep, 2)\<close>, for the
  one-byte separators the program passes (\<^verbatim>\<open>","\<close>, \<^verbatim>\<open>"="\<close>,
  \<^verbatim>\<open>"@"\<close>). \<^verbatim>\<open>Split\<close> of the empty string is the one-element list
  holding the empty string; \<^verbatim>\<open>SplitN(s, sep, 2)\<close> cuts at the first separator
  only.
\<close>

fun Split :: "string \<Rightarrow> char \<Rightarrow> string list" where
  "Split [] sep = [[]]"
| "Split (x # xs) sep =
     (if x = sep then [] # Split xs sep
      else (case Split xs sep of
              [] \<Rightarrow> [[x]]
            | piece # pieces \<Rightarrow> (x # piece) # pieces))"

definition SplitN2 :: "string \<Rightarrow> char \<Rightarrow> string list" where
  "SplitN2 s sep =
     (if sep \<in> set s
      then [takeWhile (\<lambda>x. x \<noteq> sep) s, tl (dropWhile (\<lambda>x. x \<noteq> sep) s)]
      else [s])"

text \<open>\<^verbatim>\<open>strings.Contains(s, substr)\<close>: \<open>substr\<close> occurs in \<open>s\<close> as a contiguous run.\<close>

definition Contains :: "string \<Rightarrow> string \<Rightarrow> bool" where
  "Contains s substr = sublist substr s"

text \<open>
  \<^verbatim>\<open>fmt\<close>'s \<^verbatim>\<open>%x\<close>. On a byte slice each byte gives two lowercase digits; on an
  integer the digits are the shortest ones, and \<^verbatim>\<open>%0Nx\<close> pads them with zeros on the
  left up to \<open>N\<close> characters.
\<close>

definition hexdigit :: "nat \<Rightarrow> char" where
  "hexdigit n = ''0123456789abcdef'' ! n"

definition hex :: "string \<Rightarrow> string" where
  "hex bytes = concat (map (\<lambda>b. [hexdigit (of_char b div 16), hexdigit (of_char b mod 16)]) bytes)"

function hexdigits :: "nat \<Rightarrow> string" where
  "hexdigits n = (if n < 16 then [hexdigit n] else hexdigits (n div 16) @ [hexdigit (n mod 16)])"
  by pat_completeness auto
termination
  by (relation "measure id") auto

definition Sprintf_0x :: "nat \<Rightarrow> nat \<Rightarrow> string" where
  "Sprintf_0x width n = replicate (width - length (hexdigits n)) (CHR ''0'') @ hexdigits n"

text \<open>\<^verbatim>\<open>%v\<close> of a \<^verbatim>\<open>[]string\<close>: the elements between brackets, separated by spaces.\<close>

fun Join :: "string list \<Rightarrow> string \<Rightarrow> string" where
  "Join [] sep = []"
| "Join [x] sep = x"
| "Join (x # y # ys) sep = x @ sep @ Join (y # ys) sep"

definition Sprint_strings :: "string list \<Rightarrow> string" where
  "Sprint_strings xs = ''['' @ Join xs '' '' @ '']''"

text \<open>
  Reading a \<^verbatim>\<open>map[string]string\<close> at a key it does not hold gives the empty string
  (\<^verbatim>\<open>realm, _ := tokens["realm"]\<close>).
\<close>

definition index_map :: "(string \<rightharpoonup> string) \<Rightarrow> string \<Rightarrow> string" where
  "index_map m k = (case m k of None \<Rightarrow> [] | Some v \<Rightarrow> v)"

text \<open>The apostrophe and the double quote, and a value between apostrophes.\<close>

definition apos :: char where
  "apos = CHR 0x27"

definition dquote :: char where
  "dquote = CHR 0x22"

definition quoted :: "string \<Rightarrow> string" where
  "quoted s = apos # s @ [apos]"

subsection \<open>DIGEST-MD5 response and client nonce\<close>

text \<open>
  \<^verbatim>\<open>saslDigestResponse\<close>, with its three closures \<open>h\<close>, \<open>hex\<close> and \<open>kd\<close>.
  \<^verbatim>\<open>crypto/md5\<close> is not code of this repository: the digest function
  (\<^verbatim>\<open>md5.New(); Write; Sum(nil)\<close>, from a byte string to its 16 digest bytes) is the
  parameter \<open>md5_Sum\<close>. \<^verbatim>\<open>string(h(...))\<close> keeps the digest's raw bytes.
\<close>

definition saslDigestResponse where
  "saslDigestResponse (md5_Sum :: string \<Rightarrow> string)
       (username :: string) (realm :: string) (passwd :: string) (nonce :: string)
       (cnonceStr :: string) (authenticate :: string) (digestUri :: string)
       (nonceCountStr :: string) =
     (let h = (\<lambda>text. md5_Sum text);
          kd = (\<lambda>secret data. h (secret @ '':'' @ data));
          a1 = h (username @ '':'' @ realm @ '':'' @ passwd) @ '':'' @ nonce @ '':'' @ cnonceStr;
          a2 = authenticate @ '':'' @ digestUri;
          response = hex (kd (hex (h a1))
                       (nonce @ '':'' @ nonceCountStr @ '':'' @ cnonceStr @ '':auth:'' @ hex (h a2)))
      in response)"

text \<open>
  The reference computation of RFC 2831 as the specification writes it, for the
  comparison with \<^const>\<open>saslDigestResponse\<close>. Its hexadecimal encoding is written
  here a second time, from the character codes: every octet gives its high and its low
  half, each as one of \<^verbatim>\<open>0\<close> to \<^verbatim>\<open>9\<close> or \<^verbatim>\<open>a\<close> to \<^verbatim>\<open>f\<close>.
\<close>

definition lowercase_digit :: "nat \<Rightarrow> char" where
  "lowercase_digit d =
     (if d < 10 then char_of (of_char (CHR ''0'') + d)
      else char_of (of_char (CHR ''a'') + (d - 10)))"

fun rfc2831_HEX :: "string \<Rightarrow> string" where
  "rfc2831_HEX [] = []"
| "rfc2831_HEX (octet # octets) =
     lowercase_digit (of_char octet div 16) # lowercase_digit (of_char octet mod 16)
     # rfc2831_HEX octets"

definition rfc2831_A1 where
  "rfc2831_A1 (MD5 :: string \<Rightarrow> string)
       (username :: string) (realm :: string) (password :: string) (nonce :: string)
       (cnonce_value :: string) =
     MD5 (username @ '':'' @ realm @ '':'' @ password) @ '':'' @ nonce @ '':'' @ cnonce_value"

definition rfc2831_A2 :: "string \<Rightarrow> string" where
  "rfc2831_A2 domain = ''AUTHENTICATE:'' @ (''xmpp/'' @ domain)"

definition rfc2831_digest where
  "rfc2831_digest (MD5 :: string \<Rightarrow> string)
       (username :: string) (realm :: string) (password :: string) (nonce :: string)
       (cnonce_value :: string) (domain :: string) =
     MD5 (rfc2831_HEX (MD5 (rfc2831_A1 MD5 username realm password nonce cnonce_value))
          @ '':'' @ nonce @ '':'' @ ''00000001'' @ '':'' @ cnonce_value @ '':auth:''
          @ rfc2831_HEX (MD5 (rfc2831_A2 domain)))"

definition rfc2831_response where
  "rfc2831_response (MD5 :: string \<Rightarrow> string)
       (username :: string) (realm :: string) (password :: string) (nonce :: string)
       (cnonce_value :: string) (domain :: string) =
     rfc2831_HEX (rfc2831_digest MD5 username realm password nonce cnonce_value domain)"

definition lower_hex_digits :: "char set" where
  "lower_hex_digits = set ''0123456789abcdef''"

text \<open>
  \<^verbatim>\<open>cnonce\<close>. Its argument is what
  \<^verbatim>\<open>rand.Int(rand.Reader, 1 << 64)\<close> returned: an error, or a number below
  \<open>2 ^ 64\<close> (hence the type \<^typ>\<open>64 word\<close>). On an error the function returns the
  empty string.
\<close>

definition cnonce :: "string + 64 word \<Rightarrow> string" where
  "cnonce rand_Int =
     (case rand_Int of
        Inl err \<Rightarrow> []
      | Inr cn \<Rightarrow> Sprintf_0x 16 (unat cn))"

text \<open>
  Reading a string of hexadecimal digits back: as a number, and two digits at a time
  as octets.
\<close>

definition hexdigit_value :: "char \<Rightarrow> nat" where
  "hexdigit_value c = length (takeWhile (\<lambda>d. d \<noteq> c) ''0123456789abcdef'')"

definition hex_value :: "string \<Rightarrow> nat" where
  "hex_value s = foldl (\<lambda>acc c. 16 * acc + hexdigit_value c) 0 s"

fun unhex :: "string \<Rightarrow> string" where
  "unhex (high # low # digits) =
     char_of (16 * hexdigit_value high + hexdigit_value low) # unhex digits"
| "unhex digits = []"

subsection \<open>Stanzas\<close>

definition nsStream :: string where
  "nsStream = ''http://etherx.jabber.org/streams''"

definition nsTLS :: string where
  "nsTLS = ''urn:ietf:params:xml:ns:xmpp-tls''"

definition nsSASL :: string where
  "nsSASL = ''urn:ietf:params:xml:ns:xmpp-sasl''"

definition nsBind :: string where
  "nsBind = ''urn:ietf:params:xml:ns:xmpp-bind''"

definition nsClient :: string where
  "nsClient = ''jabber:client''"

definition nsNotify :: string where
  "nsNotify = ''google:mail:notify''"

text \<open>
  \<^verbatim>\<open>xml.Name\<close>, and the structs the decoder fills. Of each struct the record
  keeps the fields the program reads; \<^verbatim>\<open>XMLName\<close>, \<^verbatim>\<open>Error\<close>,
  \<^verbatim>\<open>Identity\<close> and \<^verbatim>\<open>Resource\<close> are written by the decoder and never
  read (\<open>newMail\<close> keeps its \<^verbatim>\<open>XMLName\<close>, the only field it has).
  \<^verbatim>\<open>NewMail\<close> is a pointer: \<open>None\<close> is \<^verbatim>\<open>nil\<close>. The field
  \<^verbatim>\<open>Id\<close> is named \<open>Id'\<close> here.
\<close>

record Name =
  Space :: string
  Local :: string

record saslMechanisms =
  Mechanism :: "string list"

record streamFeatures =
  Mechanisms :: saslMechanisms

record saslFailure =
  Any :: Name

record bindBind =
  Jid :: string

record feature =
  Var :: string

record query =
  Features :: "feature list"

record newMail =
  XMLName :: Name

record clientIQ =
  From :: string
  Id' :: string
  To :: string
  Type :: string
  Bind :: bindBind
  Query :: query
  NewMail :: "newMail option"

text \<open>
  The values \<^verbatim>\<open>next\<close> returns in its \<^verbatim>\<open>interface{}\<close>: a pointer to one of the
  structs it allocates, or the string \<^verbatim>\<open>""\<close> it allocates for a SASL challenge
  or response (which the decoder then refuses, so that \<open>V_string\<close> is never returned).
  A struct whose fields the program never reads has no argument.
\<close>

datatype stanza =
    P_streamFeatures streamFeatures
  | P_streamError
  | P_tlsStartTLS
  | P_tlsProceed
  | P_tlsFailure
  | P_saslMechanisms
  | V_string string
  | P_saslAbort
  | P_saslSuccess
  | P_saslFailure saslFailure
  | P_bindBind
  | P_clientMessage
  | P_clientPresence
  | P_clientIQ clientIQ
  | P_clientError

subsection \<open>The XML decoder\<close>

text \<open>
  \<^verbatim>\<open>encoding/xml\<close> is not code of this repository, so what it returns is input
  to the model. The decoder \<^verbatim>\<open>self.p\<close> is the list of what its next calls of
  \<^verbatim>\<open>Token\<close> will return: a start element, some other token (character data, a
  comment, an end element), \<^verbatim>\<open>io.EOF\<close>, or another error with its message. When
  the list is used up the peer sends nothing more and the read never returns.

  A start element carries, besides its name, what \<^verbatim>\<open>DecodeElement\<close> makes of
  the element (its attributes and content up to the matching end) for each kind of
  storage the program passes: an error message, or the filled value.
  \<open>as_other\<close> is the error, if any, of decoding into one of the structs whose fields
  the program never reads.
\<close>

record element =
  as_streamFeatures :: "string + streamFeatures"
  as_string :: "string + string"
  as_clientIQ :: "string + clientIQ"
  as_saslFailure :: "string + saslFailure"
  as_other :: "string option"

datatype token =
    StartElement Name element
  | OtherToken
  | TokenEOF
  | TokenError string

text \<open>
  \<^verbatim>\<open>nextStart\<close>: the loop calls \<^verbatim>\<open>p.Token()\<close> until it gets a start
  element; an error other than \<^verbatim>\<open>io.EOF\<close> is returned, \<^verbatim>\<open>io.EOF\<close> and
  every other token are passed over. \<open>None\<close> means the function never returns.
  The result comes with the decoder after the call.
\<close>

fun nextStart :: "token list \<Rightarrow> ((string + Name \<times> element) \<times> token list) option" where
  "nextStart [] = None"
| "nextStart (TokenError err # ts) = Some (Inl err, ts)"
| "nextStart (TokenEOF # ts) = nextStart ts"
| "nextStart (OtherToken # ts) = nextStart ts"
| "nextStart (StartElement name el # ts) = Some (Inr (name, el), ts)"

text \<open>
  The storage \<^verbatim>\<open>next\<close> allocates, chosen by the \<^verbatim>\<open>switch\<close> on
  \<^verbatim>\<open>se.Name.Space + " " + se.Name.Local\<close>, in the order of its cases.
\<close>

datatype target =
    T_streamFeatures
  | T_streamError
  | T_tlsStartTLS
  | T_tlsProceed
  | T_tlsFailure
  | T_saslMechanisms
  | T_string
  | T_saslAbort
  | T_saslSuccess
  | T_saslFailure
  | T_bindBind
  | T_clientMessage
  | T_clientPresence
  | T_clientIQ
  | T_clientError

definition alloc :: "string \<Rightarrow> target option" where
  "alloc key =
     (if key = nsStream @ '' features'' then Some T_streamFeatures
      else if key = nsStream @ '' error'' then Some T_streamError
      else if key = nsTLS @ '' starttls'' then Some T_tlsStartTLS
      else if key = nsTLS @ '' proceed'' then Some T_tlsProceed
      else if key = nsTLS @ '' failure'' then Some T_tlsFailure
      else if key = nsSASL @ '' mechanisms'' then Some T_saslMechanisms
      else if key = nsSASL @ '' challenge'' then Some T_string
      else if key = nsSASL @ '' response'' then Some T_string
      else if key = nsSASL @ '' abort'' then Some T_saslAbort
      else if key = nsSASL @ '' success'' then Some T_saslSuccess
      else if key = nsSASL @ '' failure'' then Some T_saslFailure
      else if key = nsBind @ '' bind'' then Some T_bindBind
      else if key = nsClient @ '' message'' then Some T_clientMessage
      else if key = nsClient @ '' presence'' then Some T_clientPresence
      else if key = nsClient @ '' iq'' then Some T_clientIQ
      else if key = nsClient @ '' error'' then Some T_clientError
      else None)"

text \<open>
  \<^verbatim>\<open>p.DecodeElement(nv, &se)\<close> for the storage \<open>nv\<close> allocated above. The
  string \<^verbatim>\<open>""\<close> is no pointer: for it \<^verbatim>\<open>DecodeElement\<close> returns its error
  \<^verbatim>\<open>non-pointer passed to Unmarshal\<close> before it reads anything.
\<close>

definition decode_other :: "stanza \<Rightarrow> element \<Rightarrow> string + stanza" where
  "decode_other nv el = (case as_other el of Some err \<Rightarrow> Inl err | None \<Rightarrow> Inr nv)"

fun DecodeElement :: "target \<Rightarrow> element \<Rightarrow> string + stanza" where
  "DecodeElement T_streamFeatures el = map_sum id P_streamFeatures (as_streamFeatures el)"
| "DecodeElement T_streamError el = decode_other P_streamError el"
| "DecodeElement T_tlsStartTLS el = decode_other P_tlsStartTLS el"
| "DecodeElement T_tlsProceed el = decode_other P_tlsProceed el"
| "DecodeElement T_tlsFailure el = decode_other P_tlsFailure el"
| "DecodeElement T_saslMechanisms el = decode_other P_saslMechanisms el"
| "DecodeElement T_string el = Inl ''non-pointer passed to Unmarshal''"
| "DecodeElement T_saslAbort el = decode_other P_saslAbort el"
| "DecodeElement T_saslSuccess el = decode_other P_saslSuccess el"
| "DecodeElement T_saslFailure el = map_sum id P_saslFailure (as_saslFailure el)"
| "DecodeElement T_bindBind el = decode_other P_bindBind el"
| "DecodeElement T_clientMessage el = decode_other P_clientMessage el"
| "DecodeElement T_clientPresence el = decode_other P_clientPresence el"
| "DecodeElement T_clientIQ el = map_sum id P_clientIQ (as_clientIQ el)"
| "DecodeElement T_clientError el = decode_other P_clientError el"

text \<open>
  \<^verbatim>\<open>next\<close> (named \<open>xmpp_next\<close>: \<open>next\<close> is a keyword). It returns the triple
  \<^verbatim>\<open>(xml.Name, interface{}, error)\<close>, here with the decoder after the call;
  \<^verbatim>\<open>xml.Name{}\<close> is \<open>zero_Name\<close> and a \<^verbatim>\<open>nil\<close> interface or error is
  \<open>None\<close>.
\<close>

definition zero_Name :: Name where
  "zero_Name = \<lparr>Space = [], Local = []\<rparr>"

definition xmpp_next ::
  "token list \<Rightarrow> ((Name \<times> stanza option \<times> string option) \<times> token list) option"
where
  "xmpp_next ts =
     (case nextStart ts of
        None \<Rightarrow> None
      | Some (Inl err, ts') \<Rightarrow> Some ((zero_Name, None, Some err), ts')
      | Some (Inr (se_Name, el), ts') \<Rightarrow>
          (case alloc (Space se_Name @ '' '' @ Local se_Name) of
             None \<Rightarrow>
               Some ((zero_Name, None,
                      Some (''unexpected XMPP message '' @ Space se_Name
                            @ '' <'' @ Local se_Name @ ''/>'')), ts')
           | Some nv \<Rightarrow>
               (case DecodeElement nv el of
                  Inl err \<Rightarrow> Some ((zero_Name, None, Some err), ts')
                | Inr v \<Rightarrow> Some ((se_Name, Some v, None), ts'))))"

text \<open>
  \<^verbatim>\<open>p.DecodeElement(&v, nil)\<close>: with no start element given, the decoder reads
  tokens up to the next start element and returns any error on the way,
  \<^verbatim>\<open>io.EOF\<close> (whose message is \<^verbatim>\<open>EOF\<close>) included; then it decodes that
  element into \<open>v\<close>. \<open>view\<close> selects the kind of storage.
\<close>

fun DecodeElement_nil ::
  "(element \<Rightarrow> string + 'a) \<Rightarrow> token list \<Rightarrow> ((string + 'a) \<times> token list) option"
where
  "DecodeElement_nil view [] = None"
| "DecodeElement_nil view (TokenError err # ts) = Some (Inl err, ts)"
| "DecodeElement_nil view (TokenEOF # ts) = Some (Inl ''EOF'', ts)"
| "DecodeElement_nil view (OtherToken # ts) = DecodeElement_nil view ts"
| "DecodeElement_nil view (StartElement name el # ts) = Some (view el, ts)"

subsection \<open>The client and what it does to the world\<close>

text \<open>
  The rest of the standard library the handshake calls, taken as parameters:
  \<^verbatim>\<open>md5\<close>, \<^verbatim>\<open>strings.TrimSpace\<close>, \<^verbatim>\<open>base64.StdEncoding\<close> (encoding, and
  decoding with its error), and the renderings of \<^verbatim>\<open>fmt\<close> that only show in error
  texts: \<^verbatim>\<open>%v\<close> of the value \<^verbatim>\<open>next\<close> returned, \<^verbatim>\<open>%#v\<close> of a string,
  \<^verbatim>\<open>%+v\<close> of a feature list. \<open>other_verbs\<close> is what \<^verbatim>\<open>fmt\<close> makes of a
  format without operands from a percent sign on that is followed by a flag, a width, a
  precision or an argument index.
\<close>

record golib =
  md5_Sum :: "string \<Rightarrow> string"
  TrimSpace :: "string \<Rightarrow> string"
  EncodeToString :: "string \<Rightarrow> string"
  DecodeString :: "string \<Rightarrow> string + string"
  Sprint_v :: "stanza option \<Rightarrow> string"
  Sprint_sharp_v :: "string \<Rightarrow> string"
  Sprint_plus_v :: "feature list \<Rightarrow> string"
  other_verbs :: "string \<Rightarrow> string"

text \<open>
  \<^verbatim>\<open>fmt.Fprintf(w, format)\<close> with a format and no operand writes, as the
  documentation of \<^verbatim>\<open>fmt\<close> has it: the text outside verbs as it is; one percent
  sign for \<^verbatim>\<open>%%\<close>; \<^verbatim>\<open>%!verb(MISSING)\<close> for a verb, which finds no operand;
  \<^verbatim>\<open>%!(NOVERB)\<close> for a percent sign at the end. In particular a format without a
  percent sign is written unchanged.
\<close>

definition ascii_letter :: "char \<Rightarrow> bool" where
  "ascii_letter ch =
     (ch \<in> set ''abcdefghijklmnopqrstuvwxyz'' \<or> ch \<in> set ''ABCDEFGHIJKLMNOPQRSTUVWXYZ'')"

fun Fprintf_format :: "golib \<Rightarrow> string \<Rightarrow> string" where
  "Fprintf_format lib [] = []"
| "Fprintf_format lib [ch] = (if ch = CHR ''%'' then ''%!(NOVERB)'' else [ch])"
| "Fprintf_format lib (ch # verb # rest) =
     (if ch \<noteq> CHR ''%'' then ch # Fprintf_format lib (verb # rest)
      else if verb = CHR ''%'' then CHR ''%'' # Fprintf_format lib rest
      else if ascii_letter verb then ''%!'' @ [verb] @ ''(MISSING)'' @ Fprintf_format lib rest
      else other_verbs lib (ch # verb # rest))"

text \<open>
  A connection is a handle and what the peer will send on it, as the decoder reads it.
  The effects of the program are recorded in order in \<open>trace\<close>: a write on a
  connection, the closing of one, a dial, the start of a \<^verbatim>\<open>handleMail\<close> goroutine,
  and the calls of the two callbacks.
\<close>

record connection =
  handle :: nat
  incoming :: "token list"

datatype event =
    Write nat string
  | CloseConn nat
  | Dial
  | GoHandleMail
  | CallMailHandler
  | CallErrorHandler string

text \<open>
  \<^verbatim>\<open>type Client struct\<close>. \<open>errorHandler\<close> and \<open>mailHandler\<close> say whether the
  callback is set (not \<^verbatim>\<open>nil\<close>); \<^verbatim>\<open>New\<close> sets both. The fields
  \<^verbatim>\<open>domain\<close> (never assigned) and \<^verbatim>\<open>debug\<close> (a copy of the bytes read goes to
  standard output; the decoder sees the same bytes) are left out.
\<close>

record Client =
  conn :: connection
  jid :: string
  p :: "token list"
  user :: string
  password :: string
  errorHandler :: bool
  mailHandler :: bool
  trace :: "event list"

text \<open>
  How a call ends: it returns a value, the goroutine panics, or it waits for input
  that never comes. Each carries the client's state at that point.
\<close>

datatype panic =
    IndexOutOfRange nat nat
  | SliceBoundsOutOfRange nat nat
  | NilFunctionCall

datatype 'a outcome =
    Return 'a Client
  | Panics panic Client
  | Blocks Client

text \<open>
  A function that returns an \<^verbatim>\<open>error\<close> returns \<open>Inl\<close> of its message, or \<open>Inr\<close>
  for \<^verbatim>\<open>nil\<close>. \<open>and_then\<close> runs the next statements when the ones before did not
  return an error from the enclosing function.
\<close>

definition and_then ::
  "(string + 'a) outcome \<Rightarrow> ('a \<Rightarrow> Client \<Rightarrow> (string + 'b) outcome) \<Rightarrow> (string + 'b) outcome"
where
  "and_then r f =
     (case r of
        Return (Inr v) c \<Rightarrow> f v c
      | Return (Inl err) c \<Rightarrow> Return (Inl err) c
      | Panics x c \<Rightarrow> Panics x c
      | Blocks c \<Rightarrow> Blocks c)"

text \<open>\<^verbatim>\<open>fmt.Fprintf(self.conn, ...)\<close> with the text it writes; its result is ignored.\<close>

definition Fprintf :: "string \<Rightarrow> Client \<Rightarrow> Client" where
  "Fprintf s c = c\<lparr>trace := trace c @ [Write (handle (conn c)) s]\<rparr>"

definition Close :: "Client \<Rightarrow> Client" where
  "Close c = c\<lparr>trace := trace c @ [CloseConn (handle (conn c))]\<rparr>"

definition newline :: string where
  "newline = [CHR 0x0A]"

subsection \<open>The handshake: \<^verbatim>\<open>init\<close>\<close>

text \<open>
  The opening \<^verbatim>\<open><stream:stream>\<close> tag, and the check of the server's
  \<^verbatim>\<open><stream>\<close> that follows both times it is sent; the two error texts differ in
  their first words.
\<close>

definition stream_tag :: "string \<Rightarrow> string" where
  "stream_tag domain =
     ''<stream:stream to='' @ quoted (xmlEscape domain) @ '' xmlns='' @ quoted nsClient @ newline
     @ '' xmlns:stream='' @ quoted nsStream @ '' version='' @ quoted ''1.0'' @ ''>'' @ newline"

definition expect_stream :: "string \<Rightarrow> Client \<Rightarrow> (string + unit) outcome" where
  "expect_stream complaint c =
     (case nextStart (p c) of
        None \<Rightarrow> Blocks c
      | Some (Inl err, ts) \<Rightarrow> Return (Inl err) (c\<lparr>p := ts\<rparr>)
      | Some (Inr (se_Name, el), ts) \<Rightarrow>
          (if Space se_Name \<noteq> nsStream \<or> Local se_Name \<noteq> ''stream''
           then Return (Inl (complaint @ Local se_Name @ ''> in '' @ Space se_Name)) (c\<lparr>p := ts\<rparr>)
           else Return (Inr ()) (c\<lparr>p := ts\<rparr>)))"

definition decode_into ::
  "(element \<Rightarrow> string + 'a) \<Rightarrow> string \<Rightarrow> Client \<Rightarrow> (string + 'a) outcome"
where
  "decode_into view complaint c =
     (case DecodeElement_nil view (p c) of
        None \<Rightarrow> Blocks c
      | Some (Inl err, ts) \<Rightarrow> Return (Inl (complaint @ err)) (c\<lparr>p := ts\<rparr>)
      | Some (Inr v, ts) \<Rightarrow> Return (Inr v) (c\<lparr>p := ts\<rparr>))"

text \<open>Lines 146 to 166: stream open and feature discovery.\<close>

definition open_stream :: "string \<Rightarrow> Client \<Rightarrow> (string + streamFeatures) outcome" where
  "open_stream domain c =
     and_then
       (expect_stream ''xmpp: expected <stream> but got <''
          (Fprintf (''<?xml version='' @ quoted ''1.0'' @ ''?>'' @ newline @ stream_tag domain) c))
       (\<lambda>_. decode_into as_streamFeatures ''unmarshal <features>: '')"

text \<open>
  The loop over the tokens of the decoded DIGEST-MD5 challenge (lines 193 to 201).
  \<^verbatim>\<open>kv[1][0]\<close> panics on an empty \<^verbatim>\<open>kv[1]\<close>; the slice
  \<^verbatim>\<open>kv[1][1 : len(kv[1])-1]\<close> panics when its upper bound is below 1.
\<close>

fun parse_challenge ::
  "golib \<Rightarrow> string list \<Rightarrow> (string \<rightharpoonup> string) \<Rightarrow> panic + (string \<rightharpoonup> string)"
where
  "parse_challenge lib [] tokens = Inr tokens"
| "parse_challenge lib (token # rest) tokens =
     (let kv = SplitN2 (TrimSpace lib token) (CHR ''='') in
      if length kv = 2 then
        (if length (kv ! 1) = 0 then Inl (IndexOutOfRange 0 0)
         else if (kv ! 1) ! 0 = dquote \<and> (kv ! 1) ! (length (kv ! 1) - 1) = dquote then
           (if length (kv ! 1) - 1 < 1 then Inl (SliceBoundsOutOfRange 1 (length (kv ! 1) - 1))
            else parse_challenge lib rest
                   (tokens(kv ! 0 \<mapsto> take (length (kv ! 1) - 1 - 1) (drop 1 (kv ! 1)))))
         else parse_challenge lib rest (tokens(kv ! 0 \<mapsto> kv ! 1)))
      else parse_challenge lib rest tokens)"

text \<open>The body of \<^verbatim>\<open>if m == "DIGEST-MD5"\<close> (lines 180 to 222).\<close>

definition digest_md5 ::
  "golib \<Rightarrow> string + 64 word \<Rightarrow> string \<Rightarrow> string \<Rightarrow> string \<Rightarrow> Client \<Rightarrow> (string + string) outcome"
where
  "digest_md5 lib rand_Int usr domain m c0 =
     and_then
       (decode_into as_string ''unmarshal <challenge>: ''
          (Fprintf (''<auth xmlns='' @ quoted nsSASL @ '' mechanism='' @ quoted ''DIGEST-MD5''
                    @ ''/>'' @ newline) c0))
       (\<lambda>ch c.
          case DecodeString lib ch of
            Inl err \<Rightarrow> Return (Inl err) c
          | Inr b \<Rightarrow>
              (case parse_challenge lib (Split b (CHR '','')) Map.empty of
                 Inl x \<Rightarrow> Panics x c
               | Inr tokens \<Rightarrow>
                   (let realm = index_map tokens ''realm'';
                        nonce = index_map tokens ''nonce'';
                        qop = index_map tokens ''qop'';
                        charset = index_map tokens ''charset'';
                        cnonceStr = cnonce rand_Int;
                        digestUri = ''xmpp/'' @ domain;
                        nonceCount = Sprintf_0x 8 1;
                        digest = saslDigestResponse (md5_Sum lib) usr realm (password c) nonce
                                   cnonceStr ''AUTHENTICATE'' digestUri nonceCount;
                        message = ''username='' @ usr @ '', realm='' @ realm @ '', nonce='' @ nonce
                                  @ '', cnonce='' @ cnonceStr @ '', nc='' @ nonceCount
                                  @ '', qop='' @ qop @ '', digest-uri='' @ digestUri
                                  @ '', response='' @ digest @ '', charset='' @ charset
                    in and_then
                         (decode_into as_string ''unmarshal <challenge>: ''
                            (Fprintf (''<response xmlns='' @ quoted nsSASL @ ''>''
                                      @ EncodeToString lib message @ ''</response>'' @ newline) c))
                         (\<lambda>rspauth c.
                            case DecodeString lib rspauth of
                              Inl err \<Rightarrow> Return (Inl err) c
                            | Inr b \<Rightarrow>
                                Return (Inr m)
                                  (Fprintf (''<response xmlns='' @ quoted nsSASL @ ''/>''
                                            @ newline) c)))))"

text \<open>
  The loop \<^verbatim>\<open>for _, m := range f.Mechanisms.Mechanism\<close> (lines 167 to 224); its
  value is the variable \<^verbatim>\<open>mechanism\<close> after the loop, which stays empty when no
  entry is \<^verbatim>\<open>PLAIN\<close> or \<^verbatim>\<open>DIGEST-MD5\<close>. Both branches end in
  \<^verbatim>\<open>break\<close>.
\<close>

fun sasl_loop ::
  "golib \<Rightarrow> string + 64 word \<Rightarrow> string \<Rightarrow> string \<Rightarrow> string list \<Rightarrow> Client \<Rightarrow> (string + string) outcome"
where
  "sasl_loop lib rand_Int usr domain [] c = Return (Inr []) c"
| "sasl_loop lib rand_Int usr domain (m # ms) c =
     (if m = ''PLAIN'' then
        (let raw = [CHR 0x00] @ usr @ [CHR 0x00] @ password c;
             enc = EncodeToString lib raw
         in Return (Inr m)
              (Fprintf (''<auth xmlns='' @ quoted nsSASL @ '' mechanism='' @ quoted ''PLAIN''
                        @ ''>'' @ enc @ ''</auth>'' @ newline) c))
      else if m = ''DIGEST-MD5'' then digest_md5 lib rand_Int usr domain m c
      else sasl_loop lib rand_Int usr domain ms c)"

text \<open>The loop and the check \<^verbatim>\<open>if mechanism == ""\<close> after it (lines 167 to 227).\<close>

definition authenticate ::
  "golib \<Rightarrow> string + 64 word \<Rightarrow> string \<Rightarrow> string \<Rightarrow> streamFeatures \<Rightarrow> Client \<Rightarrow> (string + string) outcome"
where
  "authenticate lib rand_Int usr domain f c =
     and_then (sasl_loop lib rand_Int usr domain (Mechanism (Mechanisms f)) c)
       (\<lambda>mechanism c.
          if mechanism = [] then
            Return (Inl (''PLAIN authentication is not an option: ''
                         @ Sprint_strings (Mechanism (Mechanisms f)))) c
          else Return (Inr mechanism) c)"

text \<open>Lines 229 to 242: the next stanza must be the SASL success or failure.\<close>

definition auth_result :: "Client \<Rightarrow> (string + unit) outcome" where
  "auth_result c0 =
     (case xmpp_next (p c0) of
        None \<Rightarrow> Blocks c0
      | Some ((name, val, err), ts) \<Rightarrow>
          (let c = c0\<lparr>p := ts\<rparr> in
           case err of
             Some e \<Rightarrow> Return (Inl e) c
           | None \<Rightarrow>
               (case val of
                  Some P_saslSuccess \<Rightarrow> Return (Inr ()) c
                | Some (P_saslFailure v) \<Rightarrow> Return (Inl (''auth failure: '' @ Local (Any v))) c
                | _ \<Rightarrow>
                    Return (Inl (''expected <success> or <failure>, got <'' @ Local name
                                 @ ''> in '' @ Space name)) c)))"

text \<open>Lines 246 to 260: the stream is opened again and the features are read again.\<close>

definition restart_stream :: "string \<Rightarrow> Client \<Rightarrow> (string + streamFeatures) outcome" where
  "restart_stream domain c =
     and_then (expect_stream ''expected <stream>, got <'' (Fprintf (stream_tag domain) c))
       (\<lambda>_. decode_into as_streamFeatures ''unmarshal <features>: '')"

text \<open>
  Lines 262 to 270: resource binding. \<^verbatim>\<open>&iq.Bind\<close> is the address of a field of
  the local variable \<^verbatim>\<open>iq\<close>; in Go such an address is never \<^verbatim>\<open>nil\<close>, whatever
  the reply held.
\<close>

definition address_of_Bind_is_nil :: "clientIQ \<Rightarrow> bool" where
  "address_of_Bind_is_nil iq = False"

definition bind_resource :: "Client \<Rightarrow> (string + unit) outcome" where
  "bind_resource c0 =
     and_then
       (decode_into as_clientIQ ''unmarshal <iq>: ''
          (Fprintf (''<iq type='' @ quoted ''set'' @ '' id='' @ quoted ''x'' @ ''><bind xmlns=''
                    @ quoted nsBind @ ''></bind></iq>'' @ newline) c0))
       (\<lambda>iq c.
          if address_of_Bind_is_nil iq then Return (Inl ''<iq> result missing <bind>'') c
          else Return (Inr ()) (c\<lparr>jid := Jid (Bind iq)\<rparr>))"

text \<open>Lines 273 to 287: the notification setting and its acknowledgement.\<close>

definition enable_notifications :: "golib \<Rightarrow> Client \<Rightarrow> (string + unit) outcome" where
  "enable_notifications lib c0 =
     (let c1 = Fprintf (''<iq type='' @ quoted ''set'' @ '' id='' @ quoted ''setting-1''
                        @ ''><usersetting xmlns='' @ quoted ''google:setting''
                        @ ''><mailnotifications value='' @ quoted ''true''
                        @ ''/></usersetting></iq>'') c0
      in case xmpp_next (p c1) of
           None \<Rightarrow> Blocks c1
         | Some ((name, i, err), ts) \<Rightarrow>
             (let c = c1\<lparr>p := ts\<rparr> in
              case err of
                Some e \<Rightarrow> Return (Inl e) c
              | None \<Rightarrow>
                  if Space name \<noteq> nsClient \<or> Local name \<noteq> ''iq'' then
                    Return (Inl (''expected <iq>, got <'' @ Local name @ ''> in '' @ Space name)) c
                  else
                    (case i of
                       Some (P_clientIQ iq) \<Rightarrow>
                         if To iq \<noteq> jid c \<or> Type iq \<noteq> ''result'' then
                           Return (Inl (''expected <iq> to '' @ jid c @ '' with type ''
                                        @ quoted ''result'' @ '', got '' @ Sprint_v lib i)) c
                         else Return (Inr ()) c
                     | _ \<Rightarrow> Return (Inl (''expected <iq> got '' @ Sprint_v lib i)) c)))"

text \<open>
  Lines 289 to 311: the capability check. The error of \<^verbatim>\<open>next\<close> is not looked at
  here; on an error the name is the zero name and the check of the name fails.
\<close>

definition capability_check :: "golib \<Rightarrow> string \<Rightarrow> Client \<Rightarrow> (string + unit) outcome" where
  "capability_check lib domain c0 =
     (let c1 = Fprintf (''<iq type='' @ quoted ''get'' @ '' to='' @ quoted domain
                        @ ''><query xmlns='' @ quoted ''http://jabber.org/protocol/disco#info''
                        @ ''/></iq>'') c0
      in case xmpp_next (p c1) of
           None \<Rightarrow> Blocks c1
         | Some ((name, i, err), ts) \<Rightarrow>
             (let c = c1\<lparr>p := ts\<rparr> in
              if Space name \<noteq> nsClient \<or> Local name \<noteq> ''iq'' then
                Return (Inl (''expected <iq>, got <'' @ Local name @ ''> in '' @ Space name)) c
              else
                (case i of
                   Some (P_clientIQ ciq) \<Rightarrow>
                     if From ciq \<noteq> domain \<or> To ciq \<noteq> jid c \<or> Type ciq \<noteq> ''result'' then
                       Return (Inl (''expected <iq> from '' @ Sprint_sharp_v lib domain
                                    @ '', to '' @ Sprint_sharp_v lib (jid c)
                                    @ '' of type '' @ quoted ''result'' @ '' but got ''
                                    @ Sprint_sharp_v lib (From ciq) @ '', ''
                                    @ Sprint_sharp_v lib (To ciq) @ '', ''
                                    @ Sprint_sharp_v lib (Type ciq))) c
                     else if \<not> list_ex (\<lambda>feature. Var feature = nsNotify) (Features (Query ciq)) then
                       Return (Inl (''expected to find '' @ nsNotify @ '', but got ''
                                    @ Sprint_plus_v lib (Features (Query ciq)))) c
                     else Return (Inr ()) c
                 | _ \<Rightarrow> Return (Inl (''expected <iq> got '' @ Sprint_v lib i)) c)))"

text \<open>
  Lines 313 to 326: the subscription. The query is built with \<^verbatim>\<open>fmt.Sprintf\<close> and
  the result is passed to \<^verbatim>\<open>fmt.Fprintf\<close> as its format. As above the error of
  \<^verbatim>\<open>next\<close> is not looked at.
\<close>

definition mail_request :: "Client \<Rightarrow> string" where
  "mail_request c =
     ''<iq type='' @ quoted ''get'' @ '' from='' @ quoted (jid c) @ [CHR 0x09] @ ''to=''
     @ quoted (user c) @ '' id='' @ quoted ''mail-request-1'' @ ''><query xmlns=''
     @ quoted ''google:mail:notify'' @ ''/></iq>''"

definition subscribe :: "golib \<Rightarrow> Client \<Rightarrow> (string + unit) outcome" where
  "subscribe lib c0 =
     (let c1 = Fprintf (Fprintf_format lib (mail_request c0)) c0
      in case xmpp_next (p c1) of
           None \<Rightarrow> Blocks c1
         | Some ((name, i, err), ts) \<Rightarrow>
             (let c = c1\<lparr>p := ts\<rparr> in
              if Space name \<noteq> nsClient \<or> Local name \<noteq> ''iq'' then
                Return (Inl (''expected <iq> got '' @ Sprint_v lib i)) c
              else
                (case i of
                   Some (P_clientIQ ciq) \<Rightarrow>
                     if From ciq \<noteq> user c \<or> Id' ciq \<noteq> ''mail-request-1''
                        \<or> To ciq \<noteq> jid c \<or> Type ciq \<noteq> ''result'' then
                       Return (Inl (''expected <iq> from '' @ Sprint_sharp_v lib (user c)
                                    @ '' to '' @ Sprint_sharp_v lib (jid c)
                                    @ '' of type '' @ quoted ''result'' @ '', with id ''
                                    @ quoted ''mail-request-1'' @ '', but got '' @ Sprint_v lib i)) c
                     else Return (Inr ()) c
                 | _ \<Rightarrow> Return (Inl (''expected <iq> got '' @ Sprint_v lib i)) c)))"

text \<open>The same for a statement that is still waiting for the client's state.\<close>

definition and_then_k ::
  "(Client \<Rightarrow> (string + 'a) outcome) \<Rightarrow> ('a \<Rightarrow> Client \<Rightarrow> (string + 'b) outcome)
   \<Rightarrow> Client \<Rightarrow> (string + 'b) outcome"
where
  "and_then_k step f c = and_then (step c) f"

text \<open>
  \<^verbatim>\<open>init\<close>: the decoder is created on the connection, the account is split at
  the first \<^verbatim>\<open>@\<close>, and the eight steps follow in order, each one only when the one
  before did not return an error. \<open>rand_Int\<close> is what the random source gives
  \<^verbatim>\<open>cnonce\<close> if it is called.
\<close>

definition init :: "golib \<Rightarrow> string + 64 word \<Rightarrow> Client \<Rightarrow> (string + unit) outcome" where
  "init lib rand_Int c0 =
     (let c = c0\<lparr>p := incoming (conn c0)\<rparr>;
          a = SplitN2 (user c) (CHR ''@'')
      in if length a \<noteq> 2 then
           Return (Inl (''xmpp: invalid username (want user@domain): '' @ user c)) c
         else
           (let usr = a ! 0; domain = a ! 1 in
            and_then (open_stream domain c) (\<lambda>f.
            and_then_k (authenticate lib rand_Int usr domain f) (\<lambda>mechanism.
            and_then_k auth_result (\<lambda>_.
            and_then_k (restart_stream domain) (\<lambda>_.
            and_then_k bind_resource (\<lambda>_.
            and_then_k (enable_notifications lib) (\<lambda>_.
            and_then_k (capability_check lib domain) (\<lambda>_.
            subscribe lib)))))))))"

subsection \<open>Connecting, and the receive loop\<close>

text \<open>
  What the network does on \<^verbatim>\<open>connect\<close>: \<^verbatim>\<open>net.Dial\<close> fails, the TLS
  handshake fails, or the connection stands and the peer will send the given tokens.
  A new connection gets the next handle. When \<^verbatim>\<open>init\<close> returns an error the new
  connection is closed.
\<close>

datatype dial =
    DialError string
  | HandshakeError string
  | Connected "token list"

definition connect :: "golib \<Rightarrow> string + 64 word \<Rightarrow> dial \<Rightarrow> Client \<Rightarrow> (string + unit) outcome" where
  "connect lib rand_Int d c0 =
     (let c1 = c0\<lparr>trace := trace c0 @ [Dial]\<rparr> in
      case d of
        DialError err \<Rightarrow> Return (Inl err) c1
      | HandshakeError err \<Rightarrow>
          Return (Inl err) (c1\<lparr>conn := \<lparr>handle = Suc (handle (conn c1)), incoming = []\<rparr>\<rparr>)
      | Connected ts \<Rightarrow>
          (case init lib rand_Int (c1\<lparr>conn := \<lparr>handle = Suc (handle (conn c1)), incoming = ts\<rparr>\<rparr>) of
             Return (Inl err) c \<Rightarrow> Return (Inl err) (Close c)
           | r \<Rightarrow> r))"

text \<open>\<^verbatim>\<open>Start\<close>: connect, and on success start the receive loop as a goroutine.\<close>

definition Start :: "golib \<Rightarrow> string + 64 word \<Rightarrow> dial \<Rightarrow> Client \<Rightarrow> (string + unit) outcome" where
  "Start lib rand_Int d c0 =
     (case connect lib rand_Int d c0 of
        Return (Inr u) c \<Rightarrow> Return (Inr u) (c\<lparr>trace := trace c @ [GoHandleMail]\<rparr>)
      | r \<Rightarrow> r)"

text \<open>
  \<^verbatim>\<open>handleMail\<close>, lines 101 to 108: what the loop does with a stanza that
  \<^verbatim>\<open>next\<close> returned without error.
\<close>

definition mail_reply :: "Client \<Rightarrow> clientIQ \<Rightarrow> string" where
  "mail_reply c ciq =
     ''<iq type='' @ quoted ''result'' @ '' from='' @ quoted (user c) @ '' to='' @ quoted (jid c)
     @ '' id='' @ quoted (Id' ciq) @ '' />'' @ newline"

definition handle_stanza :: "Name \<Rightarrow> stanza option \<Rightarrow> Client \<Rightarrow> Client" where
  "handle_stanza name i c =
     (if Space name = nsClient \<and> Local name = ''iq'' then
        (case i of
           Some (P_clientIQ ciq) \<Rightarrow>
             if To ciq = jid c \<and> Type ciq = ''set'' \<and> NewMail ciq \<noteq> None then
               (let c1 = Fprintf (mail_reply c ciq) c
                in if mailHandler c1 then c1\<lparr>trace := trace c1 @ [CallMailHandler]\<rparr> else c1)
             else c
         | _ \<Rightarrow> c)
      else c)"

text \<open>
  \<^verbatim>\<open>handleMail\<close>, lines 88 to 100: what the loop does with an error of
  \<^verbatim>\<open>next\<close>, after which it returns. \<open>d\<close> is what the network does if the loop
  connects again. In the first branch the error callback is called without a check
  that it is set.
\<close>

definition restart_error :: "string \<Rightarrow> string \<Rightarrow> string" where
  "restart_error err e = ''While trying to restart after '' @ err @ '': '' @ e"

definition handle_error ::
  "golib \<Rightarrow> string + 64 word \<Rightarrow> dial \<Rightarrow> string \<Rightarrow> Client \<Rightarrow> unit outcome"
where
  "handle_error lib rand_Int d err c =
     (if Contains err ''closed'' \<or> Contains err ''reset'' then
        (case Start lib rand_Int d (Close c) of
           Return (Inl e) c' \<Rightarrow>
             if errorHandler c'
             then Return () (c'\<lparr>trace := trace c' @ [CallErrorHandler (restart_error err e)]\<rparr>)
             else Panics NilFunctionCall c'
         | Return (Inr u) c' \<Rightarrow> Return () c'
         | Panics x c' \<Rightarrow> Panics x c'
         | Blocks c' \<Rightarrow> Blocks c')
      else if errorHandler c then Return () (c\<lparr>trace := trace c @ [CallErrorHandler err]\<rparr>)
      else Return () c)"

function handleMail :: "golib \<Rightarrow> string + 64 word \<Rightarrow> dial \<Rightarrow> Client \<Rightarrow> unit outcome" where
  "handleMail lib rand_Int d c =
     (case xmpp_next (p c) of
        None \<Rightarrow> Blocks c
      | Some ((name, i, err), ts) \<Rightarrow>
          (case err of
             Some e \<Rightarrow> handle_error lib rand_Int d e (c\<lparr>p := ts\<rparr>)
           | None \<Rightarrow> handleMail lib rand_Int d (handle_stanza name i (c\<lparr>p := ts\<rparr>))))"
  by pat_completeness auto
termination
proof (relation "measure (\<lambda>(lib, rand_Int, d, c). length (p c))")
  show "wf (measure (\<lambda>(lib, rand_Int, d, c). length (p c)))"
    by simp
next
  fix lib :: golib and rand_Int :: "string + 64 word" and d :: dial and c :: Client
    and x2 x1 ts name y i err
  assume nx: "xmpp_next (p c) = Some x2" and x2: "(x1, ts) = x2" and x1: "(name, y) = x1"
    and y: "(i, err) = y" and "err = None"
  have shorter: "nextStart us = Some (r, us') \<Longrightarrow> length us' < length us" for us r us'
    by (induction us rule: nextStart.induct) auto
  from nx x2 have "\<exists>r. nextStart (p c) = Some (r, ts)"
    by (auto simp: xmpp_next_def split: option.splits sum.splits prod.splits)
  with shorter have "length ts < length (p c)"
    by blast
  moreover have "p (handle_stanza name i (c\<lparr>p := ts\<rparr>)) = ts"
    by (simp add: handle_stanza_def Fprintf_def Let_def split: option.splits stanza.splits)
  ultimately show "((lib, rand_Int, d, handle_stanza name i (c\<lparr>p := ts\<rparr>)), lib, rand_Int, d, c)
        \<in> measure (\<lambda>(lib, rand_Int, d, c). length (p c))"
    by simp
qed

subsection \<open>What the statements below speak of\<close>

text \<open>
  The pairs of namespace and local name for which \<^const>\<open>alloc\<close> has a case, the
  state an outcome carries, and the relation between two states of the client that
  differ by writes only (the decoder's position and the bound JID aside).
\<close>

definition registered :: "(string \<times> string) list" where
  "registered =
     [(nsStream, ''features''), (nsStream, ''error''),
      (nsTLS, ''starttls''), (nsTLS, ''proceed''), (nsTLS, ''failure''),
      (nsSASL, ''mechanisms''), (nsSASL, ''challenge''), (nsSASL, ''response''),
      (nsSASL, ''abort''), (nsSASL, ''success''), (nsSASL, ''failure''),
      (nsBind, ''bind''),
      (nsClient, ''message''), (nsClient, ''presence''), (nsClient, ''iq''),
      (nsClient, ''error'')]"

definition state_of :: "'a outcome \<Rightarrow> Client" where
  "state_of r = (case r of Return v c \<Rightarrow> c | Panics x c \<Rightarrow> c | Blocks c \<Rightarrow> c)"

definition is_Write :: "event \<Rightarrow> bool" where
  "is_Write e = (case e of Write h s \<Rightarrow> True | _ \<Rightarrow> False)"

definition only_writes :: "Client \<Rightarrow> Client \<Rightarrow> bool" where
  "only_writes c c' =
     (conn c' = conn c \<and> user c' = user c \<and> password c' = password c
      \<and> errorHandler c' = errorHandler c \<and> mailHandler c' = mailHandler c
      \<and> (\<exists>ws. trace c' = trace c @ ws \<and> list_all is_Write ws))"

subsection \<open>Concrete inputs\<close>

text \<open>
  Inputs on which the statements are run. \<open>example_lib\<close> instantiates the library
  parameters with stand-ins (the digest is not MD5, the base64 codec is the identity,
  \<open>TrimSpace\<close> trims ASCII white space, the renderings are fixed texts); no statement
  depends on which functions they are. An element is given by what the decoder makes
  of it.
\<close>

definition is_space :: "char \<Rightarrow> bool" where
  "is_space ch = (ch \<in> set [CHR 0x09, CHR 0x0A, CHR 0x0B, CHR 0x0C, CHR 0x0D, CHR 0x20])"

definition example_lib :: golib where
  "example_lib =
     \<lparr>md5_Sum = (\<lambda>s. take 16 (s @ replicate 16 (CHR 0x00))),
      TrimSpace = (\<lambda>s. rev (dropWhile is_space (rev (dropWhile is_space s)))),
      EncodeToString = (\<lambda>s. s),
      DecodeString = (\<lambda>s. Inr s),
      Sprint_v = (\<lambda>v. ''<value>''),
      Sprint_sharp_v = (\<lambda>s. dquote # s @ [dquote]),
      Sprint_plus_v = (\<lambda>fs. ''<features>''),
      other_verbs = (\<lambda>s. s)\<rparr>"

definition unfit :: "string + 'a" where
  "unfit = Inl ''expected another element type''"

definition marker_element :: element where
  "marker_element =
     \<lparr>as_streamFeatures = unfit, as_string = Inr [], as_clientIQ = unfit,
      as_saslFailure = unfit, as_other = None\<rparr>"

definition features_element :: "string list \<Rightarrow> element" where
  "features_element ms =
     \<lparr>as_streamFeatures = Inr \<lparr>Mechanisms = \<lparr>Mechanism = ms\<rparr>\<rparr>, as_string = Inr [],
      as_clientIQ = unfit, as_saslFailure = unfit, as_other = Some ''unfit''\<rparr>"

definition text_element :: "string \<Rightarrow> element" where
  "text_element s =
     \<lparr>as_streamFeatures = unfit, as_string = Inr s, as_clientIQ = unfit,
      as_saslFailure = unfit, as_other = None\<rparr>"

definition iq_element :: "clientIQ \<Rightarrow> element" where
  "iq_element q =
     \<lparr>as_streamFeatures = unfit, as_string = Inr [], as_clientIQ = Inr q,
      as_saslFailure = unfit, as_other = Some ''unfit''\<rparr>"

definition iq_stanza :: "string \<Rightarrow> string \<Rightarrow> string \<Rightarrow> string \<Rightarrow> clientIQ" where
  "iq_stanza sender ident recipient type =
     \<lparr>From = sender, Id' = ident, To = recipient, Type = type, Bind = \<lparr>Jid = []\<rparr>,
      Query = \<lparr>Features = []\<rparr>, NewMail = None\<rparr>"

definition iq_token :: "clientIQ \<Rightarrow> token" where
  "iq_token q = StartElement \<lparr>Space = nsClient, Local = ''iq''\<rparr> (iq_element q)"

definition example_client :: Client where
  "example_client =
     \<lparr>conn = \<lparr>handle = 0, incoming = []\<rparr>, jid = ''user@domain/res1'', p = [],
      user = ''user@domain'', password = ''secret'', errorHandler = True, mailHandler = True,
      trace = []\<rparr>"

definition returned :: "'a outcome \<Rightarrow> 'a option" where
  "returned r = (case r of Return v c \<Rightarrow> Some v | Panics x c \<Rightarrow> None | Blocks c \<Rightarrow> None)"

definition new_mail :: "string \<Rightarrow> string \<Rightarrow> string \<Rightarrow> clientIQ" where
  "new_mail sender ident recipient =
     (iq_stanza sender ident recipient ''set'')
       \<lparr>NewMail := Some \<lparr>XMLName = \<lparr>Space = nsNotify, Local = ''new-mail''\<rparr>\<rparr>\<rparr>"

definition stream_start :: token where
  "stream_start = StartElement \<lparr>Space = nsStream, Local = ''stream''\<rparr> marker_element"

definition features_token :: "string list \<Rightarrow> token" where
  "features_token ms = StartElement \<lparr>Space = nsStream, Local = ''features''\<rparr> (features_element ms)"

definition success_token :: token where
  "success_token = StartElement \<lparr>Space = nsSASL, Local = ''success''\<rparr> marker_element"

text \<open>A server that answers the bind request with an IQ that has no bind child, and
  leaves out the recipient in its later replies.\<close>

definition script_without_bind :: "token list" where
  "script_without_bind =
     [stream_start, features_token [''PLAIN''], success_token,
      stream_start, features_token [],
      iq_token (iq_stanza [] ''x'' [] ''error''),
      iq_token (iq_stanza [] ''setting-1'' [] ''result''),
      iq_token ((iq_stanza ''domain'' [] [] ''result'')\<lparr>Query := \<lparr>Features = [\<lparr>Var = nsNotify\<rparr>]\<rparr>\<rparr>),
      iq_token (iq_stanza ''user@domain'' ''mail-request-1'' [] ''result'')]"

definition challenge_token :: "string \<Rightarrow> token" where
  "challenge_token s = StartElement \<lparr>Space = nsSASL, Local = ''challenge''\<rparr> (text_element s)"

definition subscription_confirmed :: "Client \<Rightarrow> Name \<Rightarrow> stanza option \<Rightarrow> bool" where
  "subscription_confirmed c name i =
     (case i of
        Some (P_clientIQ ciq) \<Rightarrow>
          Space name = nsClient \<and> Local name = ''iq''
          \<and> From ciq = user c \<and> Id' ciq = ''mail-request-1''
          \<and> To ciq = jid c \<and> Type ciq = ''result''
      | _ \<Rightarrow> False)"

text \<open>A token whose value is empty, or is one double quote alone.\<close>

definition unparsable :: "golib \<Rightarrow> string \<Rightarrow> bool" where
  "unparsable lib token =
     (case SplitN2 (TrimSpace lib token) (CHR ''='') of
        [k, v] \<Rightarrow> v = [] \<or> v = [dquote]
      | _ \<Rightarrow> False)"

text \<open>
  The server of the specification's scenario: it opens the stream, offers
  \<^verbatim>\<open>PLAIN\<close>, accepts, opens the stream again, binds \<^verbatim>\<open>user@domain/res1\<close>,
  acknowledges the setting, advertises the mail-notify feature and confirms the
  subscription.
\<close>

definition scripted_server :: "token list" where
  "scripted_server =
     [stream_start, features_token [''PLAIN''], success_token,
      stream_start, features_token [],
      iq_token ((iq_stanza [] ''x'' [] ''result'')\<lparr>Bind := \<lparr>Jid = ''user@domain/res1''\<rparr>\<rparr>),
      iq_token (iq_stanza [] ''setting-1'' ''user@domain/res1'' ''result''),
      iq_token ((iq_stanza ''domain'' [] ''user@domain/res1'' ''result'')
                  \<lparr>Query := \<lparr>Features = [\<lparr>Var = nsNotify\<rparr>]\<rparr>\<rparr>),
      iq_token (iq_stanza ''user@domain'' ''mail-request-1'' ''user@domain/res1'' ''result'')]"


section \<open>Properties\<close>

subsection \<open>Escaping\<close>

lemmas xmlEscape_loop_unfold = xmlEscape_loop.simps

declare xmlEscape_loop.simps [simp del]

lemma xmlSpecial_escape_byte:
  "(case xmlSpecial c of Some e \<Rightarrow> e | None \<Rightarrow> [c]) = escape_byte c"
  by (simp add: xmlSpecial_def escape_byte_def)

lemma xmlEscape_loop_concat:
  "i \<le> length s \<Longrightarrow> xmlEscape_loop s i b = b @ concat (map escape_byte (drop i s))"
proof (induction s i b rule: xmlEscape_loop.induct)
  case (1 s i b)
  show ?case
  proof (cases "i < length s")
    case False
    with "1.prems" show ?thesis
      by (subst xmlEscape_loop_unfold) simp
  next
    case True
    then have d: "drop i s = s ! i # drop (Suc i) s"
      by (simp add: Cons_nth_drop_Suc)
    have e: "escape_byte (s ! i) = (case xmlSpecial (s ! i) of Some e \<Rightarrow> e | None \<Rightarrow> [s ! i])"
      by (simp add: xmlSpecial_escape_byte)
    from True have le: "i + 1 \<le> length s"
      by simp
    show ?thesis
    proof (cases "xmlSpecial (s ! i)")
      case None
      have "xmlEscape_loop s (i + 1) (b @ [s ! i])
            = (b @ [s ! i]) @ concat (map escape_byte (drop (i + 1) s))"
        using "1.IH"(1) [OF True refl None le] .
      with True None e d show ?thesis
        by (subst xmlEscape_loop_unfold) simp
    next
      case (Some a)
      have "xmlEscape_loop s (i + 1) (b @ a)
            = (b @ a) @ concat (map escape_byte (drop (i + 1) s))"
        using "1.IH"(2) [OF True refl Some le] .
      with True Some e d show ?thesis
        by (subst xmlEscape_loop_unfold) simp
    qed
  qed
qed

lemma escape_byte_plain: "c \<notin> xml_special_bytes \<Longrightarrow> escape_byte c = [c]"
  by (simp add: escape_byte_def xml_special_bytes_def)

lemma concat_escape_plain:
  "set s \<inter> xml_special_bytes = {} \<Longrightarrow> concat (map escape_byte s) = s"
  by (induction s) (auto simp: escape_byte_plain)

text \<open>
  Claim C8. \<^verbatim>\<open>xmlEscape\<close> works byte by byte: its output is the concatenation, in
  order, of the images of the input's bytes, where \<open><\<close>, \<open>>\<close>, the double quote, the
  apostrophe and \<open>&\<close> become their entities and every other byte (a byte of a multi-byte
  UTF-8 sequence included) is copied unchanged; on a string with none of the five bytes
  it is the identity.
\<close>

theorem xmlEscape_bytewise:
  "xmlEscape s = concat (map escape_byte s)
   \<and> escape_byte (CHR ''<'') = ''&lt;''
   \<and> escape_byte (CHR ''>'') = ''&gt;''
   \<and> escape_byte (CHR 0x22) = ''&quot;''
   \<and> escape_byte (CHR 0x27) = ''&apos;''
   \<and> escape_byte (CHR ''&'') = ''&amp;''
   \<and> (\<forall>c. c \<notin> xml_special_bytes \<longrightarrow> escape_byte c = [c])
   \<and> (set s \<inter> xml_special_bytes = {} \<longrightarrow> xmlEscape s = s)"
proof -
  have main: "xmlEscape s = concat (map escape_byte s)"
    by (simp add: xmlEscape_def xmlEscape_loop_concat)
  have ident: "set s \<inter> xml_special_bytes = {} \<longrightarrow> xmlEscape s = s"
    by (simp add: main concat_escape_plain)
  have tbl: "escape_byte (CHR ''<'') = ''&lt;''" "escape_byte (CHR ''>'') = ''&gt;''"
    "escape_byte (CHR 0x22) = ''&quot;''" "escape_byte (CHR 0x27) = ''&apos;''"
    "escape_byte (CHR ''&'') = ''&amp;''"
    by (simp_all add: escape_byte_def)
  from main ident tbl escape_byte_plain show ?thesis
    by blast
qed

theorem xmlEscape_bytewise_witness:
  "xmlEscape ''a<b'' = ''a&lt;b''
   \<and> set ''gmail.com'' \<inter> xml_special_bytes = {}
   \<and> xmlEscape ''gmail.com'' = ''gmail.com''
   \<and> CHR 0xC3 \<notin> xml_special_bytes \<and> escape_byte (CHR 0xC3) = [CHR 0xC3]"
proof -
  have plain: "set ''gmail.com'' \<inter> xml_special_bytes = {}"
    by (simp add: xml_special_bytes_def)
  have hi: "CHR 0xC3 \<notin> xml_special_bytes"
    by (simp add: xml_special_bytes_def)
  have "xmlEscape ''a<b'' = ''a&lt;b''"
    using xmlEscape_bytewise [of "''a<b''"] by (simp add: escape_byte_def)
  moreover have "xmlEscape ''gmail.com'' = ''gmail.com''"
    using xmlEscape_bytewise [of "''gmail.com''"] plain by blast
  moreover have "escape_byte (CHR 0xC3) = [CHR 0xC3]"
    using xmlEscape_bytewise [of "''''"] hi by blast
  ultimately show ?thesis
    using plain hi by simp
qed

subsection \<open>Hexadecimal formatting, the client nonce and the digest\<close>

declare hexdigits.simps [simp del]

lemma hexdigit_lower: "n < 16 \<Longrightarrow> hexdigit n \<in> lower_hex_digits"
  using nth_mem [of n "''0123456789abcdef''"] by (simp add: hexdigit_def lower_hex_digits_def)

lemma length_takeWhile_nth:
  "distinct xs \<Longrightarrow> n < length xs \<Longrightarrow> length (takeWhile (\<lambda>d. d \<noteq> xs ! n) xs) = n"
proof (induction xs arbitrary: n)
  case Nil
  then show ?case by simp
next
  case (Cons x xs)
  show ?case
  proof (cases n)
    case 0
    then show ?thesis by simp
  next
    case (Suc m)
    with Cons.prems have "xs ! m \<in> set xs" "x \<notin> set xs"
      by simp_all
    then have "x \<noteq> xs ! m"
      by blast
    with Suc Cons show ?thesis
      by simp
  qed
qed

lemma hexdigit_value_inverse: "n < 16 \<Longrightarrow> hexdigit_value (hexdigit n) = n"
proof -
  assume n: "n < 16"
  have "distinct ''0123456789abcdef''"
    by simp
  from length_takeWhile_nth [OF this, of n] n show ?thesis
    by (simp add: hexdigit_def hexdigit_value_def)
qed

lemma hex_lower: "set (hex bytes) \<subseteq> lower_hex_digits"
proof (induction bytes)
  case Nil
  show ?case by (simp add: hex_def)
next
  case (Cons b bytes)
  have "of_char b < (256 :: nat)"
    by simp
  then have "(of_char b :: nat) div 16 < 16" "(of_char b :: nat) mod 16 < 16"
    by (simp_all add: div_less_iff_less_mult)
  with Cons show ?case
    by (simp add: hex_def hexdigit_lower)
qed

lemma length_hex: "length (hex bytes) = 2 * length bytes"
  by (induction bytes) (simp_all add: hex_def)

lemma hexdigits_lower: "set (hexdigits n) \<subseteq> lower_hex_digits"
proof (induction n rule: hexdigits.induct)
  case (1 n)
  show ?case
  proof (cases "n < 16")
    case True
    then show ?thesis
      by (subst hexdigits.simps) (simp add: hexdigit_lower)
  next
    case False
    with 1 show ?thesis
      by (subst hexdigits.simps) (simp add: hexdigit_lower)
  qed
qed

lemma length_hexdigits: "n < 16 ^ Suc k \<Longrightarrow> length (hexdigits n) \<le> Suc k"
proof (induction k arbitrary: n)
  case 0
  then show ?case
    by (subst hexdigits.simps) simp
next
  case (Suc k)
  show ?case
  proof (cases "n < 16")
    case True
    then show ?thesis
      by (subst hexdigits.simps) simp
  next
    case False
    from Suc.prems have "n div 16 < 16 ^ Suc k"
      by (simp add: less_mult_imp_div_less mult.commute)
    then have "length (hexdigits (n div 16)) \<le> Suc k"
      by (rule Suc.IH)
    with False show ?thesis
      by (subst hexdigits.simps) simp
  qed
qed

lemma hex_value_snoc: "hex_value (s @ [c]) = 16 * hex_value s + hexdigit_value c"
  by (simp add: hex_value_def)

lemma hex_value_hexdigits: "hex_value (hexdigits n) = n"
proof (induction n rule: hexdigits.induct)
  case (1 n)
  show ?case
  proof (cases "n < 16")
    case True
    then show ?thesis
      by (subst hexdigits.simps) (simp add: hex_value_def hexdigit_value_inverse)
  next
    case False
    with 1 have "hex_value (hexdigits (n div 16)) = n div 16"
      by simp
    with False show ?thesis
      by (subst hexdigits.simps) (simp add: hex_value_snoc hexdigit_value_inverse)
  qed
qed

lemma hex_value_zeros: "hex_value (replicate k (CHR ''0'') @ s) = hex_value s"
proof -
  have z: "hexdigit_value (CHR ''0'') = 0"
    by (simp add: hexdigit_value_def)
  have "foldl (\<lambda>acc c. 16 * acc + hexdigit_value c) 0 (replicate k (CHR ''0'')) = 0"
    by (induction k) (simp_all add: z)
  then show ?thesis
    by (simp add: hex_value_def)
qed

lemma Sprintf_0x_length: "length (hexdigits n) \<le> width \<Longrightarrow> length (Sprintf_0x width n) = width"
  by (simp add: Sprintf_0x_def)

lemma zero_lower: "CHR ''0'' \<in> lower_hex_digits"
  by (simp add: lower_hex_digits_def)

lemma Sprintf_0x_lower: "set (Sprintf_0x width n) \<subseteq> lower_hex_digits"
  using hexdigits_lower [of n] zero_lower by (auto simp: Sprintf_0x_def)

lemma Sprintf_0x_value: "hex_value (Sprintf_0x width n) = n"
  by (simp add: Sprintf_0x_def hex_value_zeros hex_value_hexdigits)

lemma nonceCount: "Sprintf_0x 8 1 = ''00000001''"
  by (simp add: Sprintf_0x_def hexdigits.simps hexdigit_def eval_nat_numeral)

text \<open>
  Claim C9, as amended. When the random source delivers a number (always below \<open>2 ^ 64\<close>),
  \<^verbatim>\<open>cnonce\<close> returns exactly 16 lowercase hexadecimal digits that denote that
  number; when the random source fails, it returns the empty string.
\<close>

theorem cnonce_format:
  "length (cnonce (Inr cn)) = 16
   \<and> set (cnonce (Inr cn)) \<subseteq> lower_hex_digits
   \<and> hex_value (cnonce (Inr cn)) = unat cn
   \<and> cnonce (Inl err) = []"
proof -
  have "unat cn < 2 ^ 64"
    using unsigned_less [of cn] by simp
  also have "(2 :: nat) ^ 64 = 16 ^ Suc 15"
    by simp
  finally have "length (hexdigits (unat cn)) \<le> 16"
    using length_hexdigits [of "unat cn" 15] by simp
  then show ?thesis
    by (simp add: cnonce_def Sprintf_0x_length Sprintf_0x_lower Sprintf_0x_value)
qed

text \<open>
  The claim as first stated (every invocation gives 16 hexadecimal digits) fails when
  \<^verbatim>\<open>rand.Int\<close> returns an error: the result is then empty.
\<close>

theorem cnonce_error_counterexample:
  "cnonce (Inl ''unexpected EOF'') = [] \<and> length (cnonce (Inl ''unexpected EOF'')) \<noteq> 16"
  by (simp add: cnonce_def)

lemma lowercase_digits: "map lowercase_digit [0..<16] = ''0123456789abcdef''"
  by code_simp

lemma lowercase_digit_hexdigit: "n < 16 \<Longrightarrow> lowercase_digit n = hexdigit n"
proof -
  assume "n < 16"
  then have "lowercase_digit n = map lowercase_digit [0..<16] ! n"
    by simp
  then show ?thesis
    unfolding lowercase_digits hexdigit_def .
qed

lemma halves_of_char:
  "(of_char b :: nat) div 16 < 16" "(of_char b :: nat) mod 16 < 16"
proof -
  have "of_char b < (256 :: nat)"
    by simp
  then show "(of_char b :: nat) div 16 < 16" "(of_char b :: nat) mod 16 < 16"
    by (simp_all add: div_less_iff_less_mult)
qed

lemma hex_rfc2831_HEX: "hex bytes = rfc2831_HEX bytes"
  by (induction bytes) (simp_all add: hex_def lowercase_digit_hexdigit halves_of_char)

lemma unhex_hex: "unhex (hex bytes) = bytes"
proof (induction bytes)
  case Nil
  show ?case by (simp add: hex_def)
next
  case (Cons b bytes)
  have "char_of (16 * ((of_char b :: nat) div 16) + of_char b mod 16) = b"
    by simp
  with Cons show ?case
    by (simp add: hex_def hexdigit_value_inverse halves_of_char)
qed

text \<open>
  The reference encoding on the octets of the response that RFC 2831 gives in its
  example.
\<close>

lemma rfc2831_HEX_example:
  "rfc2831_HEX [CHR 0xd3, CHR 0x88, CHR 0xda, CHR 0xd9, CHR 0x0d, CHR 0x4b, CHR 0xbd, CHR 0x76,
                CHR 0x0a, CHR 0x15, CHR 0x23, CHR 0x21, CHR 0xf2, CHR 0x14, CHR 0x3a, CHR 0xf7]
   = ''d388dad90d4bbd760a152321f2143af7''"
  by code_simp

text \<open>
  Claim C4. For the arguments the handshake passes (\<^verbatim>\<open>"AUTHENTICATE"\<close>, the
  digest URI \<^verbatim>\<open>"xmpp/" + domain\<close>, the nonce count \<^verbatim>\<open>"00000001"\<close>),
  \<^verbatim>\<open>saslDigestResponse\<close> is the function of its inputs that RFC 2831 prescribes,
  \<open>HEX (MD5 (HEX (MD5 A1) : nonce : 00000001 : cnonce :auth: HEX (MD5 A2)))\<close>, where
  \<open>HEX\<close> is the reference encoding and not the program's. The result consists of
  lowercase hexadecimal digits only, two for each octet of the last digest (32 for the
  16 octets of an MD5 digest), and read back two digits at a time it gives that digest.
\<close>

theorem saslDigestResponse_rfc2831:
  "saslDigestResponse MD5 username realm passwd nonce cnonceStr
      ''AUTHENTICATE'' (''xmpp/'' @ domain) ''00000001''
    = rfc2831_response MD5 username realm passwd nonce cnonceStr domain
   \<and> Sprintf_0x 8 1 = ''00000001''
   \<and> set (saslDigestResponse MD5 username realm passwd nonce cnonceStr
      ''AUTHENTICATE'' (''xmpp/'' @ domain) ''00000001'') \<subseteq> lower_hex_digits
   \<and> length (saslDigestResponse MD5 username realm passwd nonce cnonceStr
      ''AUTHENTICATE'' (''xmpp/'' @ domain) ''00000001'')
      = 2 * length (rfc2831_digest MD5 username realm passwd nonce cnonceStr domain)
   \<and> unhex (saslDigestResponse MD5 username realm passwd nonce cnonceStr
      ''AUTHENTICATE'' (''xmpp/'' @ domain) ''00000001'')
      = rfc2831_digest MD5 username realm passwd nonce cnonceStr domain
   \<and> ((\<forall>text. length (MD5 text) = 16) \<longrightarrow>
        length (saslDigestResponse MD5 username realm passwd nonce cnonceStr
          ''AUTHENTICATE'' (''xmpp/'' @ domain) ''00000001'') = 32)"
proof -
  let ?r = "saslDigestResponse MD5 username realm passwd nonce cnonceStr
      ''AUTHENTICATE'' (''xmpp/'' @ domain) ''00000001''"
  let ?d = "rfc2831_digest MD5 username realm passwd nonce cnonceStr domain"
  have code: "?r = hex ?d"
    by (simp add: saslDigestResponse_def rfc2831_digest_def rfc2831_A1_def rfc2831_A2_def
        Let_def hex_rfc2831_HEX)
  have "?r = rfc2831_response MD5 username realm passwd nonce cnonceStr domain"
    unfolding code rfc2831_response_def by (rule hex_rfc2831_HEX)
  moreover have "set ?r \<subseteq> lower_hex_digits"
    unfolding code by (rule hex_lower)
  moreover have len: "length ?r = 2 * length ?d"
    unfolding code by (rule length_hex)
  moreover have "unhex ?r = ?d"
    unfolding code by (rule unhex_hex)
  moreover have "length ?r = 32" if "\<forall>text. length (MD5 text) = 16"
  proof -
    from that have "length ?d = 16"
      by (simp add: rfc2831_digest_def)
    with len show ?thesis
      by simp
  qed
  ultimately show ?thesis
    using nonceCount by blast
qed

text \<open>
  The vector of RFC 2831's example (with the digest URI of this service), run with the
  stand-in digest that keeps the first 16 octets of its input.
\<close>

theorem saslDigestResponse_rfc2831_witness:
  "(\<forall>text. length (md5_Sum example_lib text) = 16)
   \<and> length (saslDigestResponse (md5_Sum example_lib) ''chris'' ''elwood.innosoft.com'' ''secret''
        ''OA6MG9tEQGm2hh'' ''OA6MHXh6VqTrRk''
        ''AUTHENTICATE'' (''xmpp/'' @ ''elwood.innosoft.com'') ''00000001'') = 32
   \<and> saslDigestResponse (md5_Sum example_lib) ''chris'' ''elwood.innosoft.com'' ''secret''
        ''OA6MG9tEQGm2hh'' ''OA6MHXh6VqTrRk''
        ''AUTHENTICATE'' (''xmpp/'' @ ''elwood.innosoft.com'') ''00000001''
      = ''36333638373236393733336136353663''"
proof -
  have sixteen: "\<forall>text. length (md5_Sum example_lib text) = 16"
    by (simp add: example_lib_def min_def)
  have "saslDigestResponse (md5_Sum example_lib) ''chris'' ''elwood.innosoft.com'' ''secret''
        ''OA6MG9tEQGm2hh'' ''OA6MHXh6VqTrRk''
        ''AUTHENTICATE'' (''xmpp/'' @ ''elwood.innosoft.com'') ''00000001''
      = ''36333638373236393733336136353663''"
    by code_simp
  with sixteen
    saslDigestResponse_rfc2831 [of "md5_Sum example_lib" "''chris''" "''elwood.innosoft.com''"
      "''secret''" "''OA6MG9tEQGm2hh''" "''OA6MHXh6VqTrRk''" "''elwood.innosoft.com''"]
  show ?thesis
    by simp
qed

subsection \<open>Unregistered elements\<close>

lemma key_eq:
  "CHR '' '' \<notin> set ns \<Longrightarrow> CHR '' '' \<notin> set l \<Longrightarrow>
   (s @ CHR '' '' # t = ns @ CHR '' '' # l) = (s = ns \<and> t = l)"
  using append_Cons_eq_iff [of "CHR '' ''" ns l s t] by auto

lemma no_space_in_namespaces:
  "CHR '' '' \<notin> set nsStream" "CHR '' '' \<notin> set nsTLS" "CHR '' '' \<notin> set nsSASL"
  "CHR '' '' \<notin> set nsBind" "CHR '' '' \<notin> set nsClient"
  by (simp_all add: nsStream_def nsTLS_def nsSASL_def nsBind_def nsClient_def)

lemma alloc_registered:
  "(alloc (s @ CHR '' '' # t) = None) = ((s, t) \<notin> set registered)"
  by (simp add: alloc_def registered_def key_eq no_space_in_namespaces)

text \<open>
  Claim C6. When the next start element has a namespace and local name for which
  \<^verbatim>\<open>next\<close> has no case, \<^verbatim>\<open>next\<close> returns at once the error
  \<^verbatim>\<open>unexpected XMPP message NAMESPACE <LOCAL/>\<close> with no decoded value; the decoder
  stands right after that start element, so nothing after it was passed over.
\<close>

theorem next_unregistered:
  assumes "(Space name, Local name) \<notin> set registered"
    and "nextStart ts = Some (Inr (name, el), ts')"
  shows "xmpp_next ts =
         Some ((zero_Name, None,
                Some (''unexpected XMPP message '' @ Space name @ '' <'' @ Local name @ ''/>'')),
               ts')"
proof -
  from assms(1) have "alloc (Space name @ '' '' @ Local name) = None"
    by (simp add: alloc_registered)
  with assms(2) show ?thesis
    by (simp add: xmpp_next_def)
qed

theorem next_unregistered_witness:
  "xmpp_next [OtherToken,
              StartElement \<lparr>Space = ''urn:unknown'', Local = ''foo''\<rparr> marker_element,
              StartElement \<lparr>Space = nsClient, Local = ''iq''\<rparr> marker_element]
   = Some ((zero_Name, None, Some ''unexpected XMPP message urn:unknown <foo/>''),
           [StartElement \<lparr>Space = nsClient, Local = ''iq''\<rparr> marker_element])"
proof -
  have "(''urn:unknown'', ''foo'') \<notin> set registered"
    by (simp add: registered_def nsStream_def nsTLS_def nsSASL_def nsBind_def nsClient_def)
  then show ?thesis
    using next_unregistered [of "\<lparr>Space = ''urn:unknown'', Local = ''foo''\<rparr>"
        "[OtherToken,
          StartElement \<lparr>Space = ''urn:unknown'', Local = ''foo''\<rparr> marker_element,
          StartElement \<lparr>Space = nsClient, Local = ''iq''\<rparr> marker_element]"
        marker_element
        "[StartElement \<lparr>Space = nsClient, Local = ''iq''\<rparr> marker_element]"]
    by simp
qed


subsection \<open>Only writes during the handshake\<close>

lemma state_of_simps [simp]:
  "state_of (Return v c) = c" "state_of (Panics x c) = c" "state_of (Blocks c) = c"
  by (simp_all add: state_of_def)

lemma only_writes_refl: "only_writes c c"
  by (simp add: only_writes_def)

lemma only_writes_trans: "only_writes a b \<Longrightarrow> only_writes b c \<Longrightarrow> only_writes a c"
  by (auto simp: only_writes_def)

lemma only_writes_p: "only_writes c (c\<lparr>p := ts\<rparr>)"
  by (simp add: only_writes_def)

lemma only_writes_p': "only_writes a b \<Longrightarrow> only_writes a (b\<lparr>p := ts\<rparr>)"
  by (simp add: only_writes_def)

lemma only_writes_jid: "only_writes a b \<Longrightarrow> only_writes a (b\<lparr>jid := j\<rparr>)"
  by (simp add: only_writes_def)

lemma only_writes_Fprintf: "only_writes c (Fprintf s c)"
  by (simp add: only_writes_def Fprintf_def is_Write_def)

lemma only_writes_Fprintf': "only_writes a b \<Longrightarrow> only_writes a (Fprintf s b)"
  using only_writes_trans only_writes_Fprintf by blast

lemma and_then_only_writes:
  assumes "only_writes c (state_of r)"
    and "\<And>v c1. r = Return (Inr v) c1 \<Longrightarrow> only_writes c1 (state_of (f v c1))"
  shows "only_writes c (state_of (and_then r f))"
proof (cases r)
  case (Return x c1)
  show ?thesis
  proof (cases x)
    case (Inl e)
    with Return assms(1) show ?thesis
      by (simp add: and_then_def)
  next
    case (Inr v)
    with Return assms(1) have "only_writes c c1"
      by (simp add: state_of_def)
    moreover from Return Inr assms(2) have "only_writes c1 (state_of (f v c1))"
      by simp
    ultimately show ?thesis
      using Return Inr by (auto simp: and_then_def intro: only_writes_trans)
  qed
next
  case (Panics x c1)
  with assms(1) show ?thesis
    by (simp add: and_then_def)
next
  case (Blocks c1)
  with assms(1) show ?thesis
    by (simp add: and_then_def)
qed

lemma expect_stream_only_writes: "only_writes c (state_of (expect_stream msg c))"
  by (auto simp: expect_stream_def state_of_def only_writes_p only_writes_refl
      split: option.splits sum.splits prod.splits)

lemma decode_into_only_writes: "only_writes c (state_of (decode_into view msg c))"
  by (auto simp: decode_into_def state_of_def only_writes_p only_writes_refl
      split: option.splits sum.splits prod.splits)

lemma open_stream_only_writes: "only_writes c (state_of (open_stream domain c))"
  unfolding open_stream_def
  by (rule and_then_only_writes)
     (blast intro: only_writes_trans only_writes_Fprintf expect_stream_only_writes
        decode_into_only_writes)+

lemma restart_stream_only_writes: "only_writes c (state_of (restart_stream domain c))"
  unfolding restart_stream_def
  by (rule and_then_only_writes)
     (blast intro: only_writes_trans only_writes_Fprintf expect_stream_only_writes
        decode_into_only_writes)+


lemma digest_finish_only_writes:
  "only_writes c
     (state_of (and_then (decode_into as_string msg (Fprintf s c))
        (\<lambda>rspauth c. case DecodeString lib rspauth of
            Inl err \<Rightarrow> Return (Inl err) c
          | Inr b \<Rightarrow> Return (Inr m) (Fprintf s2 c))))"
proof (rule and_then_only_writes)
  show "only_writes c (state_of (decode_into as_string msg (Fprintf s c)))"
    by (blast intro: only_writes_trans only_writes_Fprintf decode_into_only_writes)
next
  fix v c1
  show "only_writes c1
          (state_of (case DecodeString lib v of
             Inl err \<Rightarrow> Return (Inl err) c1
           | Inr b \<Rightarrow> Return (Inr m) (Fprintf s2 c1)))"
    by (simp add: only_writes_refl only_writes_Fprintf split: sum.splits)
qed

lemma digest_md5_only_writes:
  "only_writes c (state_of (digest_md5 lib rand_Int usr domain m c))"
  unfolding digest_md5_def
proof (rule and_then_only_writes)
  show "only_writes c (state_of (decode_into as_string ''unmarshal <challenge>: ''
          (Fprintf (''<auth xmlns='' @ quoted nsSASL @ '' mechanism='' @ quoted ''DIGEST-MD5''
                    @ ''/>'' @ newline) c)))"
    by (blast intro: only_writes_trans only_writes_Fprintf decode_into_only_writes)
qed (simp add: only_writes_refl digest_finish_only_writes Let_def split: sum.splits)

lemma sasl_loop_only_writes:
  "only_writes c (state_of (sasl_loop lib rand_Int usr domain ms c))"
  by (induction ms) (simp_all add: only_writes_refl only_writes_Fprintf digest_md5_only_writes Let_def)

lemma authenticate_only_writes:
  "only_writes c (state_of (authenticate lib rand_Int usr domain f c))"
  unfolding authenticate_def
  by (rule and_then_only_writes) (simp_all add: sasl_loop_only_writes only_writes_refl)

lemma auth_result_only_writes: "only_writes c (state_of (auth_result c))"
  by (simp add: auth_result_def only_writes_refl only_writes_p Let_def
      split: option.splits prod.splits stanza.splits)

lemma bind_resource_only_writes: "only_writes c (state_of (bind_resource c))"
  unfolding bind_resource_def
  by (rule and_then_only_writes)
     (auto intro: only_writes_trans only_writes_Fprintf decode_into_only_writes
        only_writes_jid only_writes_refl)

lemma enable_notifications_only_writes:
  "only_writes c (state_of (enable_notifications lib c))"
  by (simp add: enable_notifications_def only_writes_Fprintf only_writes_p' Let_def
      split: option.splits prod.splits stanza.splits)

lemma capability_check_only_writes:
  "only_writes c (state_of (capability_check lib domain c))"
  by (simp add: capability_check_def only_writes_Fprintf only_writes_p' Let_def
      split: option.splits prod.splits stanza.splits)

lemma subscribe_only_writes: "only_writes c (state_of (subscribe lib c))"
  by (simp add: subscribe_def only_writes_Fprintf only_writes_p' Let_def
      split: option.splits prod.splits stanza.splits)

lemma and_then_k_only_writes:
  assumes "\<And>c. only_writes c (state_of (step c))"
    and "\<And>v c. only_writes c (state_of (f v c))"
  shows "only_writes c (state_of (and_then_k step f c))"
  unfolding and_then_k_def by (rule and_then_only_writes) (simp_all add: assms)

lemma init_only_writes:
  "only_writes (c\<lparr>p := incoming (conn c)\<rparr>) (state_of (init lib rand_Int c))"
  unfolding init_def Let_def
  by (auto simp: only_writes_refl
      intro!: and_then_only_writes and_then_k_only_writes open_stream_only_writes
        authenticate_only_writes auth_result_only_writes restart_stream_only_writes
        bind_resource_only_writes enable_notifications_only_writes
        capability_check_only_writes subscribe_only_writes)


lemma is_Write_not_others:
  "list_all is_Write ws \<Longrightarrow>
   Dial \<notin> set ws \<and> GoHandleMail \<notin> set ws \<and> CallMailHandler \<notin> set ws
   \<and> (\<forall>m. CallErrorHandler m \<notin> set ws) \<and> (\<forall>h. CloseConn h \<notin> set ws)"
  by (induction ws) (auto simp: is_Write_def)

lemma Start_frame:
  "\<exists>evs. trace (state_of (Start lib rand_Int d c)) = trace c @ Dial # evs
         \<and> Dial \<notin> set evs \<and> (\<forall>m. CallErrorHandler m \<notin> set evs)
         \<and> CallMailHandler \<notin> set evs
         \<and> errorHandler (state_of (Start lib rand_Int d c)) = errorHandler c"
proof (cases d)
  case (DialError e)
  then show ?thesis
    by (simp add: Start_def connect_def)
next
  case (HandshakeError e)
  then show ?thesis
    by (simp add: Start_def connect_def)
next
  case (Connected ts)
  define c1 where "c1 = c\<lparr>trace := trace c @ [Dial],
                          conn := \<lparr>handle = Suc (handle (conn c)), incoming = ts\<rparr>\<rparr>"
  define r where "r = init lib rand_Int c1"
  have "only_writes (c1\<lparr>p := incoming (conn c1)\<rparr>) (state_of r)"
    unfolding r_def by (rule init_only_writes)
  then obtain ws where ws: "trace (state_of r) = trace c @ Dial # ws" "list_all is_Write ws"
    and eh: "errorHandler (state_of r) = errorHandler c"
    by (auto simp: only_writes_def c1_def)
  note nots = is_Write_not_others [OF ws(2)]
  have S: "Start lib rand_Int d c =
      (case r of
         Return (Inl e) c' \<Rightarrow> Return (Inl e) (Close c')
       | Return (Inr u) c' \<Rightarrow> Return (Inr u) (c'\<lparr>trace := trace c' @ [GoHandleMail]\<rparr>)
       | Panics x c' \<Rightarrow> Panics x c'
       | Blocks c' \<Rightarrow> Blocks c')"
    using Connected
    by (simp add: Start_def connect_def r_def c1_def Let_def split: outcome.splits sum.splits)
  show ?thesis
  proof (cases r)
    case (Return x c')
    with ws eh nots S show ?thesis
      by (cases x) (simp_all add: Close_def)
  next
    case (Panics x c')
    with ws eh nots S show ?thesis
      by simp
  next
    case (Blocks c')
    with ws eh nots S show ?thesis
      by simp
  qed
qed

text \<open>On a connection that stands, \<^verbatim>\<open>Start\<close> runs the whole handshake on it.\<close>

lemma Start_runs_init:
  "Start lib rand_Int (Connected ts) c =
     (case init lib rand_Int
             (c\<lparr>trace := trace c @ [Dial],
                conn := \<lparr>handle = Suc (handle (conn c)), incoming = ts\<rparr>\<rparr>) of
        Return (Inl e) c' \<Rightarrow> Return (Inl e) (Close c')
      | Return (Inr u) c' \<Rightarrow> Return (Inr u) (c'\<lparr>trace := trace c' @ [GoHandleMail]\<rparr>)
      | Panics x c' \<Rightarrow> Panics x c'
      | Blocks c' \<Rightarrow> Blocks c')"
  by (simp add: Start_def connect_def Let_def split: outcome.splits sum.splits)

declare handleMail.simps [simp del]

lemma handleMail_error_step:
  "xmpp_next (p c) = Some ((name, i, Some e), ts) \<Longrightarrow>
   handleMail lib rand_Int d c = handle_error lib rand_Int d e (c\<lparr>p := ts\<rparr>)"
  by (subst handleMail.simps) simp

lemma handleMail_stanza_step:
  "xmpp_next (p c) = Some ((name, i, None), ts) \<Longrightarrow>
   handleMail lib rand_Int d c = handleMail lib rand_Int d (handle_stanza name i (c\<lparr>p := ts\<rparr>))"
  by (subst handleMail.simps) simp

lemma handleMail_blocks:
  "xmpp_next (p c) = None \<Longrightarrow> handleMail lib rand_Int d c = Blocks c"
  by (subst handleMail.simps) simp

text \<open>
  What the receive loop does when \<^verbatim>\<open>next\<close> returns an error, for every error and
  whether or not the error callback is set. The errors are sorted by their text: one
  that contains \<^verbatim>\<open>closed\<close> or \<^verbatim>\<open>reset\<close> makes the loop close the connection
  and call \<^verbatim>\<open>Start\<close> once (the events after the close begin with the one dial, no
  second dial follows, and \<^verbatim>\<open>Start\<close> itself calls no error callback); if
  \<^verbatim>\<open>Start\<close> returns an error the loop calls the error callback with a text made of
  both errors, without a check that the callback is set. On any other error the loop
  calls the error callback, if it is set, with that error, and returns with no close
  and no dial.
\<close>

lemma handleMail_decode_error:
  assumes nx: "xmpp_next (p c) = Some ((name, i, Some err), ts)"
  shows "handleMail lib rand_Int d c =
           (if Contains err ''closed'' \<or> Contains err ''reset'' then
              (case Start lib rand_Int d (Close (c\<lparr>p := ts\<rparr>)) of
                 Return (Inl e) c' \<Rightarrow>
                   if errorHandler c then
                     Return () (c'\<lparr>trace := trace c' @
                        [CallErrorHandler (''While trying to restart after '' @ err @ '': '' @ e)]\<rparr>)
                   else Panics NilFunctionCall c'
               | Return (Inr u) c' \<Rightarrow> Return () c'
               | Panics x c' \<Rightarrow> Panics x c'
               | Blocks c' \<Rightarrow> Blocks c')
            else if errorHandler c then
              Return () (c\<lparr>p := ts, trace := trace c @ [CallErrorHandler err]\<rparr>)
            else Return () (c\<lparr>p := ts\<rparr>))
         \<and> (\<exists>evs. trace (state_of (Start lib rand_Int d (Close (c\<lparr>p := ts\<rparr>))))
                     = trace c @ [CloseConn (handle (conn c)), Dial] @ evs
                   \<and> Dial \<notin> set evs \<and> (\<forall>m. CallErrorHandler m \<notin> set evs))"
proof -
  define c1 where "c1 = Close (c\<lparr>p := ts\<rparr>)"
  from Start_frame [of lib rand_Int d c1] obtain evs where
    evs: "trace (state_of (Start lib rand_Int d c1)) = trace c1 @ Dial # evs"
      "Dial \<notin> set evs" "\<forall>m. CallErrorHandler m \<notin> set evs"
    and keep: "errorHandler (state_of (Start lib rand_Int d c1)) = errorHandler c1"
    by blast
  have eh1: "errorHandler c1 = errorHandler c"
    by (simp add: c1_def Close_def)
  have step: "handleMail lib rand_Int d c = handle_error lib rand_Int d err (c\<lparr>p := ts\<rparr>)"
    using nx by (rule handleMail_error_step)
  have run: "handleMail lib rand_Int d c =
           (if Contains err ''closed'' \<or> Contains err ''reset'' then
              (case Start lib rand_Int d c1 of
                 Return (Inl e) c' \<Rightarrow>
                   if errorHandler c then
                     Return () (c'\<lparr>trace := trace c' @
                        [CallErrorHandler (''While trying to restart after '' @ err @ '': '' @ e)]\<rparr>)
                   else Panics NilFunctionCall c'
               | Return (Inr u) c' \<Rightarrow> Return () c'
               | Panics x c' \<Rightarrow> Panics x c'
               | Blocks c' \<Rightarrow> Blocks c')
            else if errorHandler c then
              Return () (c\<lparr>p := ts, trace := trace c @ [CallErrorHandler err]\<rparr>)
            else Return () (c\<lparr>p := ts\<rparr>))"
  proof (cases "Start lib rand_Int d c1")
    case (Return x c')
    with keep eh1 have "errorHandler c' = errorHandler c"
      by simp
    with Return show ?thesis
      unfolding step by (cases x) (simp_all add: handle_error_def c1_def restart_error_def)
  next
    case (Panics x c')
    then show ?thesis
      unfolding step by (simp add: handle_error_def c1_def)
  next
    case (Blocks c')
    then show ?thesis
      unfolding step by (simp add: handle_error_def c1_def)
  qed
  have "trace (state_of (Start lib rand_Int d c1))
        = trace c @ [CloseConn (handle (conn c)), Dial] @ evs"
    using evs(1) by (simp add: c1_def Close_def)
  with evs(2,3) run show ?thesis
    unfolding c1_def by blast
qed

lemmas run_simps =
  Start_def connect_def init_def SplitN2_def open_stream_def expect_stream_def and_then_def
  and_then_k_def Fprintf_def Close_def decode_into_def example_client_def xmpp_next_def
  Contains_def sublist_code Let_def zero_Name_def

text \<open>
  A connection that the peer resets: the read fails with a text that ends in
  \<^verbatim>\<open>connection reset by peer\<close>. The loop closes the connection and dials once;
  here the new connection breaks during the handshake, and the callback gets both
  errors.
\<close>

lemma reset_by_peer_reconnects:
  "handleMail example_lib (Inr 255) (Connected [TokenError ''unexpected EOF''])
     (example_client\<lparr>p := [TokenError ''read: connection reset by peer'']\<rparr>)
   = Return ()
      (example_client
        \<lparr>conn := \<lparr>handle = 1, incoming = [TokenError ''unexpected EOF'']\<rparr>,
         p := [],
         trace := [CloseConn 0, Dial,
                   Write 1 (''<?xml version='1.0'?>'' @ newline @ stream_tag ''domain''),
                   CloseConn 1,
                   CallErrorHandler ''While trying to restart after read: connection reset by peer: unexpected EOF'']\<rparr>)"
proof -
  let ?lost = "example_client\<lparr>p := [TokenError ''read: connection reset by peer'']\<rparr>"
  have a: "xmpp_next (p ?lost) = Some ((zero_Name, None, Some ''read: connection reset by peer''), [])"
    by (simp add: xmpp_next_def example_client_def)
  show ?thesis
    using handleMail_decode_error [OF a, of example_lib "Inr 255" "Connected [TokenError ''unexpected EOF'']"]
    by (simp add: run_simps quoted_def apos_def)
qed

text \<open>
  Claim C3. The claim is not what the code does when the peer closes the connection.
  The stream element is open for the whole session, so the decoder reports the end of
  the input as \<^verbatim>\<open>XML syntax error on line 1: unexpected EOF\<close> (the line is that of
  the input read so far). This text contains neither \<^verbatim>\<open>closed\<close> nor
  \<^verbatim>\<open>reset\<close>: whatever a new dial would give, the loop hands the raw error to the
  error callback and returns, with no close, no dial and no handshake.
\<close>

theorem peer_close_not_reconnected:
  "xmpp_next [TokenError ''XML syntax error on line 1: unexpected EOF'']
     = Some ((zero_Name, None, Some ''XML syntax error on line 1: unexpected EOF''), [])
   \<and> handleMail lib rand_Int d
       (example_client\<lparr>p := [TokenError ''XML syntax error on line 1: unexpected EOF'']\<rparr>)
     = Return ()
        (example_client
          \<lparr>p := [],
           trace := [CallErrorHandler ''XML syntax error on line 1: unexpected EOF'']\<rparr>)"
proof -
  have nx: "xmpp_next [TokenError ''XML syntax error on line 1: unexpected EOF'']
     = Some ((zero_Name, None, Some ''XML syntax error on line 1: unexpected EOF''), [])"
    by (simp add: xmpp_next_def)
  then have "handleMail lib rand_Int d
       (example_client\<lparr>p := [TokenError ''XML syntax error on line 1: unexpected EOF'']\<rparr>)
     = handle_error lib rand_Int d ''XML syntax error on line 1: unexpected EOF''
         (example_client\<lparr>p := []\<rparr>)"
    using handleMail_error_step
      [of "example_client\<lparr>p := [TokenError ''XML syntax error on line 1: unexpected EOF'']\<rparr>"
        zero_Name None "''XML syntax error on line 1: unexpected EOF''" "[]" lib rand_Int d]
    by (simp add: example_client_def)
  also have "\<dots> = Return ()
        (example_client
          \<lparr>p := [],
           trace := [CallErrorHandler ''XML syntax error on line 1: unexpected EOF'']\<rparr>)"
    by (simp add: handle_error_def Contains_def sublist_code example_client_def)
  finally show ?thesis
    using nx by simp
qed

text \<open>
  The sorting by text errs the other way too. Here the peer sends an element
  \<^verbatim>\<open>reset\<close> that \<^verbatim>\<open>next\<close> does not know: no read failed and nothing was
  closed, the error is that of an unknown element, and yet the loop closes the
  connection, dials again and reports the wrapped error, not the raw one.
\<close>

lemma unknown_element_reset_restarts:
  "xmpp_next [StartElement \<lparr>Space = ''urn:x'', Local = ''reset''\<rparr> marker_element]
     = Some ((zero_Name, None, Some ''unexpected XMPP message urn:x <reset/>''), [])
   \<and> handleMail example_lib (Inr 255) (DialError ''unreachable'')
       (example_client\<lparr>p := [StartElement \<lparr>Space = ''urn:x'', Local = ''reset''\<rparr> marker_element]\<rparr>)
     = Return ()
        (example_client
          \<lparr>p := [],
           trace := [CloseConn 0, Dial,
                     CallErrorHandler
                       ''While trying to restart after unexpected XMPP message urn:x <reset/>: unreachable'']\<rparr>)"
proof -
  have nx: "xmpp_next [StartElement \<lparr>Space = ''urn:x'', Local = ''reset''\<rparr> marker_element]
     = Some ((zero_Name, None, Some ''unexpected XMPP message urn:x <reset/>''), [])"
    by (simp add: xmpp_next_def alloc_def nsClient_def nsStream_def nsTLS_def nsSASL_def
        nsBind_def)
  then have "handleMail example_lib (Inr 255) (DialError ''unreachable'')
       (example_client\<lparr>p := [StartElement \<lparr>Space = ''urn:x'', Local = ''reset''\<rparr> marker_element]\<rparr>)
     = handle_error example_lib (Inr 255) (DialError ''unreachable'')
         ''unexpected XMPP message urn:x <reset/>''
         (example_client\<lparr>p := []\<rparr>)"
    using handleMail_error_step
      [of "example_client\<lparr>p := [StartElement \<lparr>Space = ''urn:x'', Local = ''reset''\<rparr> marker_element]\<rparr>"
        zero_Name None "''unexpected XMPP message urn:x <reset/>''" "[]"
        example_lib "Inr 255" "DialError ''unreachable''"]
    by (simp add: example_client_def)
  also have "\<dots> = Return ()
        (example_client
          \<lparr>p := [],
           trace := [CloseConn 0, Dial,
                     CallErrorHandler
                       ''While trying to restart after unexpected XMPP message urn:x <reset/>: unreachable'']\<rparr>)"
    by (simp add: handle_error_def Contains_def sublist_code Start_def connect_def Close_def
        restart_error_def example_client_def)
  finally show ?thesis
    using nx by simp
qed

text \<open>
  With no error callback set, a failed restart ends the loop in a call of a
  \<^verbatim>\<open>nil\<close> function, while the other branch checks the callback before the call.
\<close>

lemma failed_restart_without_callback:
  "handleMail lib rand_Int (DialError ''unreachable'')
     (example_client\<lparr>errorHandler := False, p := [TokenError ''read: connection reset by peer'']\<rparr>)
   = Panics NilFunctionCall
       (example_client\<lparr>errorHandler := False, p := [], trace := [CloseConn 0, Dial]\<rparr>)
   \<and> handleMail lib rand_Int d
     (example_client\<lparr>errorHandler := False, p := [TokenError ''XML syntax error on line 1'']\<rparr>)
   = Return () (example_client\<lparr>errorHandler := False, p := []\<rparr>)"
proof -
  let ?lost = "example_client\<lparr>errorHandler := False, p := [TokenError ''read: connection reset by peer'']\<rparr>"
  let ?bad = "example_client\<lparr>errorHandler := False, p := [TokenError ''XML syntax error on line 1'']\<rparr>"
  have a: "xmpp_next (p ?lost) = Some ((zero_Name, None, Some ''read: connection reset by peer''), [])"
    by (simp add: xmpp_next_def example_client_def)
  have b: "xmpp_next (p ?bad) = Some ((zero_Name, None, Some ''XML syntax error on line 1''), [])"
    by (simp add: xmpp_next_def example_client_def)
  have "handleMail lib rand_Int (DialError ''unreachable'') ?lost
   = Panics NilFunctionCall
       (example_client\<lparr>errorHandler := False, p := [], trace := [CloseConn 0, Dial]\<rparr>)"
    using handleMail_decode_error [OF a, of lib rand_Int "DialError ''unreachable''"]
    by (simp add: run_simps)
  moreover have "handleMail lib rand_Int d ?bad
   = Return () (example_client\<lparr>errorHandler := False, p := []\<rparr>)"
    using handleMail_decode_error [OF b, of lib rand_Int d]
    by (simp add: run_simps)
  ultimately show ?thesis
    by simp
qed

subsection \<open>The receive loop and a mail notification\<close>

text \<open>
  What the loop does with a stanza in general: for an IQ in \<^verbatim>\<open>jabber:client\<close> that
  is addressed to the bound JID, has type \<^verbatim>\<open>set\<close> and carries the new-mail marker,
  one reply with the same id and, when the callback is set, one call of it; for every
  other stanza nothing.
\<close>

lemma handle_stanza_notification:
  assumes "Space name = nsClient" and "Local name = ''iq''"
    and "To ciq = jid c" and "Type ciq = ''set''" and "NewMail ciq \<noteq> None"
  shows "handle_stanza name (Some (P_clientIQ ciq)) c
         = c\<lparr>trace := trace c
              @ Write (handle (conn c))
                  (''<iq type='result' from='' @ quoted (user c) @ '' to='' @ quoted (jid c)
                   @ '' id='' @ quoted (Id' ciq) @ '' />'' @ newline)
              # (if mailHandler c then [CallMailHandler] else [])\<rparr>"
  using assms
  by (simp add: handle_stanza_def mail_reply_def Fprintf_def Let_def quoted_def apos_def)

lemma handle_stanza_other:
  assumes "\<not> (Space name = nsClient \<and> Local name = ''iq''
             \<and> (\<exists>ciq. i = Some (P_clientIQ ciq) \<and> To ciq = jid c \<and> Type ciq = ''set''
                       \<and> NewMail ciq \<noteq> None))"
  shows "handle_stanza name i c = c"
  using assms
  by (auto simp: handle_stanza_def split: option.splits stanza.splits)

text \<open>
  A run of the loop: the account \<^verbatim>\<open>user@domain\<close>, bound to
  \<^verbatim>\<open>user@domain/res1\<close>, receives the notification with id \<^verbatim>\<open>7\<close>, and
  nothing after it.
\<close>

lemma handleMail_replies_to_own_jid:
  "handleMail example_lib (Inr 255) (DialError ''unreachable'')
     (example_client\<lparr>p := [iq_token (new_mail ''user@domain'' ''7'' ''user@domain/res1'')]\<rparr>)
   = Blocks (example_client
       \<lparr>p := [],
        trace := [Write 0 (''<iq type='result' from='user@domain' to='user@domain/res1' id='7' />'' @ newline),
                  CallMailHandler]\<rparr>)"
  apply (subst handleMail.simps)
  apply (simp add: xmpp_next_def iq_token_def alloc_def nsClient_def nsStream_def nsTLS_def nsSASL_def nsBind_def
      iq_element_def example_client_def new_mail_def iq_stanza_def handle_stanza_def Fprintf_def
      mail_reply_def quoted_def apos_def Let_def)
  apply (subst handleMail.simps)
  apply (simp add: xmpp_next_def)
  done

text \<open>
  Claim C1, as amended. One turn of the receive loop on a stanza that \<^verbatim>\<open>next\<close>
  decoded. If the stanza is an IQ in \<^verbatim>\<open>jabber:client\<close> addressed to the bound
  JID, of type \<^verbatim>\<open>set\<close>, with the new-mail marker, the loop goes on from a state
  that differs by exactly one write, the reply
  \<^verbatim>\<open><iq type='result' from='ACCOUNT' to='BOUND JID' id='SAME ID' />\<close>, followed by
  one call of the mail callback when it is set: the reply's \<^verbatim>\<open>from\<close> is the
  account and its \<^verbatim>\<open>to\<close> is the client's own bound JID. For every other stanza
  the loop goes on with no write and no call.
\<close>

theorem handleMail_on_stanza:
  assumes "xmpp_next (p c) = Some ((name, i, None), ts)"
  shows "(\<forall>ciq. Space name = nsClient \<and> Local name = ''iq'' \<and> i = Some (P_clientIQ ciq)
               \<and> To ciq = jid c \<and> Type ciq = ''set'' \<and> NewMail ciq \<noteq> None \<longrightarrow>
            handleMail lib rand_Int d c
            = handleMail lib rand_Int d
                (c\<lparr>p := ts,
                   trace := trace c
                     @ Write (handle (conn c))
                         (''<iq type='result' from='' @ quoted (user c) @ '' to='' @ quoted (jid c)
                          @ '' id='' @ quoted (Id' ciq) @ '' />'' @ newline)
                     # (if mailHandler c then [CallMailHandler] else [])\<rparr>))
       \<and> (\<not> (Space name = nsClient \<and> Local name = ''iq''
               \<and> (\<exists>ciq. i = Some (P_clientIQ ciq) \<and> To ciq = jid c \<and> Type ciq = ''set''
                         \<and> NewMail ciq \<noteq> None)) \<longrightarrow>
            handleMail lib rand_Int d c = handleMail lib rand_Int d (c\<lparr>p := ts\<rparr>))"
proof -
  have step: "handleMail lib rand_Int d c
              = handleMail lib rand_Int d (handle_stanza name i (c\<lparr>p := ts\<rparr>))"
    using assms by (rule handleMail_stanza_step)
  have yes: "handle_stanza name (Some (P_clientIQ ciq)) (c\<lparr>p := ts\<rparr>)
             = c\<lparr>p := ts,
                  trace := trace c
                    @ Write (handle (conn c))
                        (''<iq type='result' from='' @ quoted (user c) @ '' to='' @ quoted (jid c)
                         @ '' id='' @ quoted (Id' ciq) @ '' />'' @ newline)
                    # (if mailHandler c then [CallMailHandler] else [])\<rparr>"
    if "Space name = nsClient" "Local name = ''iq''" "To ciq = jid c" "Type ciq = ''set''"
      "NewMail ciq \<noteq> None" for ciq
    using that handle_stanza_notification [of name ciq "c\<lparr>p := ts\<rparr>"] by simp
  have no: "handle_stanza name i (c\<lparr>p := ts\<rparr>) = c\<lparr>p := ts\<rparr>"
    if "\<not> (Space name = nsClient \<and> Local name = ''iq''
               \<and> (\<exists>ciq. i = Some (P_clientIQ ciq) \<and> To ciq = jid c \<and> Type ciq = ''set''
                         \<and> NewMail ciq \<noteq> None))"
    using that handle_stanza_other [of name i "c\<lparr>p := ts\<rparr>"] by simp
  from step yes no show ?thesis
    by auto
qed

theorem handleMail_on_stanza_witness:
  "handleMail example_lib (Inr 255) (DialError ''unreachable'')
     (example_client\<lparr>p := [iq_token (new_mail ''user@domain'' ''7'' ''user@domain/res1'')]\<rparr>)
   = handleMail example_lib (Inr 255) (DialError ''unreachable'')
       (example_client
         \<lparr>p := [],
          trace := [Write 0 (''<iq type='result' from='user@domain' to='user@domain/res1' id='7' />'' @ newline),
                    CallMailHandler]\<rparr>)
   \<and> handleMail example_lib (Inr 255) (DialError ''unreachable'')
     (example_client\<lparr>p := [iq_token (iq_stanza ''user@domain'' ''7'' ''user@domain/res1'' ''result'')]\<rparr>)
   = handleMail example_lib (Inr 255) (DialError ''unreachable'') (example_client\<lparr>p := []\<rparr>)"
proof -
  let ?mail = "new_mail ''user@domain'' ''7'' ''user@domain/res1''"
  let ?other = "iq_stanza ''user@domain'' ''7'' ''user@domain/res1'' ''result''"
  have nx: "xmpp_next (p (example_client\<lparr>p := [iq_token q]\<rparr>))
            = Some ((\<lparr>Space = nsClient, Local = ''iq''\<rparr>, Some (P_clientIQ q), None), [])" for q
    by (simp add: xmpp_next_def iq_token_def iq_element_def alloc_def
        nsClient_def nsStream_def nsTLS_def nsSASL_def nsBind_def)
  have mail: "To ?mail = jid (example_client\<lparr>p := [iq_token ?mail]\<rparr>)" "Type ?mail = ''set''"
    "NewMail ?mail \<noteq> None" "Id' ?mail = ''7''"
    by (simp_all add: new_mail_def iq_stanza_def example_client_def)
  have other: "Type ?other \<noteq> ''set''"
    by (simp add: iq_stanza_def)
  from handleMail_on_stanza [OF nx [of ?mail], of example_lib "Inr 255" "DialError ''unreachable''"]
    mail
  have a: "handleMail example_lib (Inr 255) (DialError ''unreachable'')
     (example_client\<lparr>p := [iq_token ?mail]\<rparr>)
   = handleMail example_lib (Inr 255) (DialError ''unreachable'')
       (example_client
         \<lparr>p := [],
          trace := [Write 0 (''<iq type='result' from='user@domain' to='user@domain/res1' id='7' />'' @ newline),
                    CallMailHandler]\<rparr>)"
    by (simp add: example_client_def quoted_def apos_def)
  from handleMail_on_stanza [OF nx [of ?other], of example_lib "Inr 255" "DialError ''unreachable''"]
    other
  have b: "handleMail example_lib (Inr 255) (DialError ''unreachable'')
     (example_client\<lparr>p := [iq_token ?other]\<rparr>)
   = handleMail example_lib (Inr 255) (DialError ''unreachable'') (example_client\<lparr>p := []\<rparr>)"
    by (simp add: example_client_def)
  from a b show ?thesis
    by simp
qed

text \<open>
  The claim as first stated has the reply addressed to the sender of the notification.
  Here the sender is \<^verbatim>\<open>user@domain\<close> and the reply goes to
  \<^verbatim>\<open>user@domain/res1\<close>.
\<close>

theorem reply_not_to_sender_counterexample:
  "From (new_mail ''user@domain'' ''7'' ''user@domain/res1'') = ''user@domain''
   \<and> handleMail example_lib (Inr 255) (DialError ''unreachable'')
     (example_client\<lparr>p := [iq_token (new_mail ''user@domain'' ''7'' ''user@domain/res1'')]\<rparr>)
   = Blocks (example_client
       \<lparr>p := [],
        trace := [Write 0 (''<iq type='result' from='user@domain' to='user@domain/res1' id='7' />'' @ newline),
                  CallMailHandler]\<rparr>)"
  using handleMail_replies_to_own_jid by (simp add: new_mail_def iq_stanza_def)

subsection \<open>Resource binding\<close>

text \<open>
  Claim C5, at an input where the code departs from it. The server answers the bind
  request with an IQ of type \<^verbatim>\<open>error\<close> that has no bind child, and its later
  replies name no recipient. The handshake returns no error and the bound JID is
  empty: the check \<^verbatim>\<open>&iq.Bind == nil\<close> can never hold.
\<close>

theorem handshake_completes_without_bind:
  "(case init example_lib (Inr 255)
           (example_client\<lparr>jid := [], conn := \<lparr>handle = 0, incoming = script_without_bind\<rparr>\<rparr>) of
      Return r c \<Rightarrow> r = Inr () \<and> jid c = []
    | Panics x c \<Rightarrow> False
    | Blocks c \<Rightarrow> False)"
  by code_simp

text \<open>For every reply that decodes, the JID becomes the \<^verbatim>\<open>jid\<close> of its bind child.\<close>

lemma bind_resource_sets_jid:
  assumes "DecodeElement_nil as_clientIQ (p c) = Some (Inr iq, ts)"
  shows "returned (bind_resource c) = Some (Inr ())
         \<and> jid (state_of (bind_resource c)) = Jid (Bind iq)"
  using assms
  by (simp add: bind_resource_def and_then_def decode_into_def Fprintf_def
      address_of_Bind_is_nil_def returned_def)

subsection \<open>Choice of the SASL mechanism\<close>

lemma sasl_loop_skip:
  "\<forall>m\<in>set skipped. m \<noteq> ''PLAIN'' \<and> m \<noteq> ''DIGEST-MD5'' \<Longrightarrow>
   sasl_loop lib rand_Int usr domain (skipped @ rest) c = sasl_loop lib rand_Int usr domain rest c"
  by (induction skipped) simp_all

lemma digest_md5_value:
  "digest_md5 lib rand_Int usr domain m c = Return (Inr v) c' \<Longrightarrow> v = m"
  by (auto simp: digest_md5_def and_then_def decode_into_def Let_def
      split: outcome.splits sum.splits option.splits prod.splits)

lemma digest_md5_after_auth:
  "only_writes
     (Fprintf (''<auth xmlns='' @ quoted nsSASL @ '' mechanism='' @ quoted ''DIGEST-MD5''
               @ ''/>'' @ newline) c)
     (state_of (digest_md5 lib rand_Int usr domain m c))"
  unfolding digest_md5_def
  by (rule and_then_only_writes)
     (simp_all add: decode_into_only_writes only_writes_refl digest_finish_only_writes Let_def
        split: sum.splits)

lemma authenticate_digest:
  "and_then (digest_md5 lib rand_Int usr domain ''DIGEST-MD5'' c)
     (\<lambda>mechanism c. if mechanism = [] then Return (Inl msg) c else Return (Inr mechanism) c)
   = digest_md5 lib rand_Int usr domain ''DIGEST-MD5'' c"
proof (cases "digest_md5 lib rand_Int usr domain ''DIGEST-MD5'' c")
  case (Return x c')
  show ?thesis
  proof (cases x)
    case (Inl e)
    with Return show ?thesis
      by (simp add: and_then_def)
  next
    case (Inr v)
    with Return digest_md5_value have "v = ''DIGEST-MD5''"
      by blast
    with Return Inr show ?thesis
      by (simp add: and_then_def)
  qed
qed (simp_all add: and_then_def)

text \<open>
  Claim C2, as amended. The mechanism used is the first entry of the offered list that
  is \<^verbatim>\<open>PLAIN\<close> or \<^verbatim>\<open>DIGEST-MD5\<close>. If that entry is \<^verbatim>\<open>PLAIN\<close> the
  client writes the PLAIN \<^verbatim>\<open><auth>\<close> and goes on; if it is \<^verbatim>\<open>DIGEST-MD5\<close>
  the client runs the DIGEST-MD5 exchange, whose first write is the empty
  DIGEST-MD5 \<^verbatim>\<open><auth/>\<close>; if the list has neither, the handshake returns the error
  \<^verbatim>\<open>PLAIN authentication is not an option: \<close> followed by the offered list between
  brackets.
\<close>

theorem authenticate_first_offered:
  assumes "\<forall>m\<in>set skipped. m \<noteq> ''PLAIN'' \<and> m \<noteq> ''DIGEST-MD5''"
  shows "(Mechanism (Mechanisms f) = skipped @ ''PLAIN'' # rest \<longrightarrow>
            authenticate lib rand_Int usr domain f c
            = Return (Inr ''PLAIN'')
                (Fprintf (''<auth xmlns='urn:ietf:params:xml:ns:xmpp-sasl' mechanism='PLAIN'>''
                          @ EncodeToString lib ([CHR 0x00] @ usr @ [CHR 0x00] @ password c)
                          @ ''</auth>'' @ newline) c))
       \<and> (Mechanism (Mechanisms f) = skipped @ ''DIGEST-MD5'' # rest \<longrightarrow>
            authenticate lib rand_Int usr domain f c
            = digest_md5 lib rand_Int usr domain ''DIGEST-MD5'' c
            \<and> (\<exists>evs. trace (state_of (authenticate lib rand_Int usr domain f c))
                  = trace c
                    @ Write (handle (conn c))
                        (''<auth xmlns='urn:ietf:params:xml:ns:xmpp-sasl' mechanism='DIGEST-MD5'/>''
                         @ newline) # evs))
       \<and> (Mechanism (Mechanisms f) = skipped \<longrightarrow>
            authenticate lib rand_Int usr domain f c
            = Return (Inl (''PLAIN authentication is not an option: '' @ ''['' @ Join skipped '' '' @ '']'')) c)"
proof -
  have plain: "authenticate lib rand_Int usr domain f c
        = Return (Inr ''PLAIN'')
            (Fprintf (''<auth xmlns='urn:ietf:params:xml:ns:xmpp-sasl' mechanism='PLAIN'>''
                      @ EncodeToString lib ([CHR 0x00] @ usr @ [CHR 0x00] @ password c)
                      @ ''</auth>'' @ newline) c)"
    if ms: "Mechanism (Mechanisms f) = skipped @ ''PLAIN'' # rest"
    using assms
    by (simp add: authenticate_def ms sasl_loop_skip and_then_def Let_def quoted_def apos_def
        nsSASL_def)
  have digest: "authenticate lib rand_Int usr domain f c
            = digest_md5 lib rand_Int usr domain ''DIGEST-MD5'' c
            \<and> (\<exists>evs. trace (state_of (authenticate lib rand_Int usr domain f c))
                  = trace c
                    @ Write (handle (conn c))
                        (''<auth xmlns='urn:ietf:params:xml:ns:xmpp-sasl' mechanism='DIGEST-MD5'/>''
                         @ newline) # evs)"
    if ms: "Mechanism (Mechanisms f) = skipped @ ''DIGEST-MD5'' # rest"
  proof -
    have eq: "authenticate lib rand_Int usr domain f c
              = digest_md5 lib rand_Int usr domain ''DIGEST-MD5'' c"
      using assms by (simp add: authenticate_def ms sasl_loop_skip authenticate_digest)
    from digest_md5_after_auth [of c lib rand_Int usr domain "''DIGEST-MD5''"]
    have "\<exists>evs. trace (state_of (digest_md5 lib rand_Int usr domain ''DIGEST-MD5'' c))
            = trace c
              @ Write (handle (conn c))
                  (''<auth xmlns='urn:ietf:params:xml:ns:xmpp-sasl' mechanism='DIGEST-MD5'/>''
                   @ newline) # evs"
      by (auto simp: only_writes_def Fprintf_def quoted_def apos_def nsSASL_def)
    with eq show ?thesis
      by simp
  qed
  have none: "authenticate lib rand_Int usr domain f c
        = Return (Inl (''PLAIN authentication is not an option: '' @ ''['' @ Join skipped '' '' @ '']'')) c"
    if ms: "Mechanism (Mechanisms f) = skipped"
  proof -
    have "sasl_loop lib rand_Int usr domain (skipped @ []) c = Return (Inr []) c"
      using assms by (simp only: sasl_loop_skip sasl_loop.simps)
    then show ?thesis
      by (simp add: authenticate_def ms and_then_def Sprint_strings_def)
  qed
  from plain digest none show ?thesis
    by blast
qed

theorem authenticate_first_offered_witness:
  "authenticate example_lib (Inr 255) ''user'' ''domain''
     \<lparr>Mechanisms = \<lparr>Mechanism = [''X-OAUTH2'', ''PLAIN'', ''DIGEST-MD5'']\<rparr>\<rparr> example_client
   = Return (Inr ''PLAIN'')
       (example_client\<lparr>trace :=
          [Write 0 (''<auth xmlns='urn:ietf:params:xml:ns:xmpp-sasl' mechanism='PLAIN'>''
                    @ [CHR 0x00] @ ''user'' @ [CHR 0x00] @ ''secret'' @ ''</auth>'' @ newline)]\<rparr>)
   \<and> authenticate example_lib (Inr 255) ''user'' ''domain''
     \<lparr>Mechanisms = \<lparr>Mechanism = [''X-OAUTH2'', ''GSSAPI'']\<rparr>\<rparr> example_client
   = Return (Inl ''PLAIN authentication is not an option: [X-OAUTH2 GSSAPI]'') example_client
   \<and> authenticate example_lib (Inr 255) ''user'' ''domain''
     \<lparr>Mechanisms = \<lparr>Mechanism = [''DIGEST-MD5'', ''PLAIN'']\<rparr>\<rparr> example_client
   = Blocks (example_client\<lparr>trace :=
       [Write 0 (''<auth xmlns='urn:ietf:params:xml:ns:xmpp-sasl' mechanism='DIGEST-MD5'/>''
                 @ newline)]\<rparr>)"
proof -
  have e: "\<forall>m\<in>set []. m \<noteq> ''PLAIN'' \<and> m \<noteq> ''DIGEST-MD5''"
    by simp
  have a: "\<forall>m\<in>set [''X-OAUTH2'']. m \<noteq> ''PLAIN'' \<and> m \<noteq> ''DIGEST-MD5''"
    by simp
  have b: "\<forall>m\<in>set [''X-OAUTH2'', ''GSSAPI'']. m \<noteq> ''PLAIN'' \<and> m \<noteq> ''DIGEST-MD5''"
    by simp
  show ?thesis
    using authenticate_first_offered [OF a, of
        "\<lparr>Mechanisms = \<lparr>Mechanism = [''X-OAUTH2'', ''PLAIN'', ''DIGEST-MD5'']\<rparr>\<rparr>"
        "[''DIGEST-MD5'']" example_lib "Inr 255" "''user''" "''domain''" example_client]
      authenticate_first_offered [OF b, of
        "\<lparr>Mechanisms = \<lparr>Mechanism = [''X-OAUTH2'', ''GSSAPI'']\<rparr>\<rparr>"
        "[]" example_lib "Inr 255" "''user''" "''domain''" example_client]
      authenticate_first_offered [OF e, of
        "\<lparr>Mechanisms = \<lparr>Mechanism = [''DIGEST-MD5'', ''PLAIN'']\<rparr>\<rparr>"
        "[''PLAIN'']" example_lib "Inr 255" "''user''" "''domain''" example_client]
    by (simp add: Fprintf_def example_client_def example_lib_def digest_md5_def and_then_def
        decode_into_def quoted_def apos_def nsSASL_def)
qed

text \<open>
  The claim as first stated (PLAIN is chosen whenever it is offered) fails when
  \<^verbatim>\<open>DIGEST-MD5\<close> stands before \<^verbatim>\<open>PLAIN\<close> in the list: the exchange run
  is DIGEST-MD5, both when the server answers it to the end and when the server
  sends nothing after the features (the one write is then the DIGEST-MD5
  \<^verbatim>\<open><auth/>\<close>).
\<close>

theorem plain_not_preferred_counterexample:
  "''PLAIN'' \<in> set [''DIGEST-MD5'', ''PLAIN'']
   \<and> returned (authenticate example_lib (Inr 255) ''user'' ''domain''
        \<lparr>Mechanisms = \<lparr>Mechanism = [''DIGEST-MD5'', ''PLAIN'']\<rparr>\<rparr>
        (example_client\<lparr>p := [challenge_token ''nonce=abc,qop=auth'', challenge_token ''rspauth=0'']\<rparr>))
     = Some (Inr ''DIGEST-MD5'')
   \<and> hd (trace (state_of (authenticate example_lib (Inr 255) ''user'' ''domain''
        \<lparr>Mechanisms = \<lparr>Mechanism = [''DIGEST-MD5'', ''PLAIN'']\<rparr>\<rparr>
        (example_client\<lparr>p := [challenge_token ''nonce=abc,qop=auth'', challenge_token ''rspauth=0'']\<rparr>))))
     = Write 0 (''<auth xmlns='urn:ietf:params:xml:ns:xmpp-sasl' mechanism='DIGEST-MD5'/>'' @ newline)
   \<and> authenticate example_lib (Inr 255) ''user'' ''domain''
        \<lparr>Mechanisms = \<lparr>Mechanism = [''DIGEST-MD5'', ''PLAIN'']\<rparr>\<rparr> example_client
     = Blocks (example_client\<lparr>trace :=
         [Write 0 (''<auth xmlns='urn:ietf:params:xml:ns:xmpp-sasl' mechanism='DIGEST-MD5'/>''
                   @ newline)]\<rparr>)"
  by code_simp

subsection \<open>Subscription\<close>

lemma Fprintf_format_plain:
  "CHR ''%'' \<notin> set format \<Longrightarrow> Fprintf_format lib format = format"
  by (induction lib format rule: Fprintf_format.induct) auto

text \<open>
  The subscribe step in general. It writes the mail-notify query with the id
  \<^verbatim>\<open>mail-request-1\<close> as the format of a \<^verbatim>\<open>Fprintf\<close> without operands, which
  is the query itself when neither the bound JID nor the account holds a percent sign.
  When \<^verbatim>\<open>next\<close> returns, the step accepts exactly a \<^verbatim>\<open>jabber:client\<close> IQ
  whose \<^verbatim>\<open>from\<close> is the account, whose \<^verbatim>\<open>id\<close> is \<^verbatim>\<open>mail-request-1\<close>,
  whose \<^verbatim>\<open>to\<close> is the bound JID and whose type is \<^verbatim>\<open>result\<close>; anything else
  makes the handshake return an error.
\<close>

lemma subscribe_reply_check:
  assumes "xmpp_next (p c) = Some ((name, i, err), ts)"
  shows "trace (state_of (subscribe lib c))
         = trace c
           @ [Write (handle (conn c))
                (Fprintf_format lib
                   (''<iq type='get' from='' @ quoted (jid c) @ [CHR 0x09] @ ''to='' @ quoted (user c)
                    @ '' id='mail-request-1'><query xmlns='google:mail:notify'/></iq>''))]
       \<and> (CHR ''%'' \<notin> set (jid c) \<and> CHR ''%'' \<notin> set (user c) \<longrightarrow>
            trace (state_of (subscribe lib c))
            = trace c
              @ [Write (handle (conn c))
                   (''<iq type='get' from='' @ quoted (jid c) @ [CHR 0x09] @ ''to='' @ quoted (user c)
                    @ '' id='mail-request-1'><query xmlns='google:mail:notify'/></iq>'')])
       \<and> (if subscription_confirmed c name i
            then returned (subscribe lib c) = Some (Inr ())
            else \<exists>e. returned (subscribe lib c) = Some (Inl e))"
proof -
  let ?q = "''<iq type='get' from='' @ quoted (jid c) @ [CHR 0x09] @ ''to='' @ quoted (user c)
            @ '' id='mail-request-1'><query xmlns='google:mail:notify'/></iq>''"
  have q: "mail_request c = ?q"
    by (simp add: mail_request_def quoted_def apos_def)
  have written: "trace (state_of (subscribe lib c))
                 = trace c @ [Write (handle (conn c)) (Fprintf_format lib ?q)]"
    using assms unfolding subscribe_def q
    by (auto simp: Fprintf_def Let_def state_of_def split: option.splits stanza.splits)
  have plain: "Fprintf_format lib ?q = ?q"
    if "CHR ''%'' \<notin> set (jid c) \<and> CHR ''%'' \<notin> set (user c)"
    using that by (intro Fprintf_format_plain) (simp add: quoted_def apos_def)
  have checked: "if subscription_confirmed c name i
            then returned (subscribe lib c) = Some (Inr ())
            else \<exists>e. returned (subscribe lib c) = Some (Inl e)"
    using assms
    by (auto simp: subscribe_def subscription_confirmed_def Fprintf_def Let_def returned_def
        split: option.splits stanza.splits)
  from written plain checked show ?thesis
    by simp
qed

lemma subscribe_reply_check_example:
  "returned (subscribe example_lib
      (example_client\<lparr>p := [iq_token (iq_stanza ''user@domain'' ''mail-request-1'' ''user@domain/res1'' ''result'')]\<rparr>))
     = Some (Inr ())
   \<and> trace (state_of (subscribe example_lib
      (example_client\<lparr>p := [iq_token (iq_stanza ''user@domain'' ''mail-request-1'' ''user@domain/res1'' ''result'')]\<rparr>)))
     = [Write 0 (''<iq type='get' from='user@domain/res1'' @ [CHR 0x27, CHR 0x09]
                 @ ''to='user@domain' id='mail-request-1'><query xmlns='google:mail:notify'/></iq>'')]
   \<and> (\<exists>e. returned (subscribe example_lib
      (example_client\<lparr>p := [iq_token (iq_stanza ''user@domain'' ''mail-request-2'' ''user@domain/res1'' ''result'')]\<rparr>))
     = Some (Inl e))"
proof -
  let ?good = "iq_stanza ''user@domain'' ''mail-request-1'' ''user@domain/res1'' ''result''"
  let ?bad = "iq_stanza ''user@domain'' ''mail-request-2'' ''user@domain/res1'' ''result''"
  have nx: "xmpp_next (p (example_client\<lparr>p := [iq_token q]\<rparr>))
            = Some ((\<lparr>Space = nsClient, Local = ''iq''\<rparr>, Some (P_clientIQ q), None), [])" for q
    by (simp add: xmpp_next_def iq_token_def iq_element_def alloc_def
        nsClient_def nsStream_def nsTLS_def nsSASL_def nsBind_def)
  have good: "subscription_confirmed (example_client\<lparr>p := [iq_token ?good]\<rparr>)
                \<lparr>Space = nsClient, Local = ''iq''\<rparr> (Some (P_clientIQ ?good))"
    by (simp add: subscription_confirmed_def example_client_def iq_stanza_def)
  have bad: "\<not> subscription_confirmed (example_client\<lparr>p := [iq_token ?bad]\<rparr>)
                \<lparr>Space = nsClient, Local = ''iq''\<rparr> (Some (P_clientIQ ?bad))"
    by (simp add: subscription_confirmed_def example_client_def iq_stanza_def)
  have no_percent: "CHR ''%'' \<notin> set (jid (example_client\<lparr>p := ts\<rparr>))
                    \<and> CHR ''%'' \<notin> set (user (example_client\<lparr>p := ts\<rparr>))" for ts
    by (simp add: example_client_def)
  from subscribe_reply_check [OF nx [of ?good], of example_lib] good no_percent
    subscribe_reply_check [OF nx [of ?bad], of example_lib] bad
  show ?thesis
    by (simp add: example_client_def quoted_def apos_def)
qed


text \<open>The handshake returns no error only through an accepted subscription reply.\<close>

lemma init_complete_via_subscribe:
  "init lib rand_Int c0 = Return (Inr u) c' \<Longrightarrow> \<exists>c. subscribe lib c = Return (Inr u) c'"
  by (auto simp: init_def Let_def and_then_def and_then_k_def
      split: if_splits outcome.splits sum.splits)

subsection \<open>Parsing the DIGEST-MD5 challenge\<close>

lemma SplitN2_cases:
  obtains s where "SplitN2 t sep = [s]" | k v where "SplitN2 t sep = [k, v]"
  by (cases "sep \<in> set t") (auto simp: SplitN2_def)

lemma parse_challenge_step:
  "parse_challenge lib (token # rest) tokens =
     (case SplitN2 (TrimSpace lib token) (CHR ''='') of
        [k, v] \<Rightarrow>
          if v = [] then Inl (IndexOutOfRange 0 0)
          else if v = [dquote] then Inl (SliceBoundsOutOfRange 1 0)
          else if hd v = dquote \<and> last v = dquote
            then parse_challenge lib rest (tokens(k \<mapsto> butlast (tl v)))
          else parse_challenge lib rest (tokens(k \<mapsto> v))
      | _ \<Rightarrow> parse_challenge lib rest tokens)"
proof (cases rule: SplitN2_cases [of "TrimSpace lib token" "CHR ''=''"])
  case (1 s)
  then show ?thesis
    by simp
next
  case (2 k v)
  show ?thesis
  proof (cases v)
    case Nil
    with 2 show ?thesis
      by simp
  next
    case (Cons a w)
    have one: "length v - 1 < 1 \<longleftrightarrow> w = []"
      using Cons by (cases w) simp_all
    have ends: "v ! 0 = hd v" "v ! (length v - 1) = last v"
      using Cons by (simp_all add: last_conv_nth)
    have mid: "take (length v - 1 - 1) (drop 1 v) = butlast (tl v)"
      using Cons by (simp add: butlast_conv_take)
    show ?thesis
    proof (cases "w = []")
      case True
      with 2 Cons show ?thesis
        by (simp add: Let_def)
    next
      case False
      with 2 Cons one ends mid show ?thesis
        by (simp add: Let_def)
    qed
  qed
qed

lemma parse_challenge_total:
  "(\<exists>result. parse_challenge lib pieces tokens = Inr result)
     \<longleftrightarrow> (\<forall>token \<in> set pieces. \<not> unparsable lib token)"
proof (induction pieces arbitrary: tokens)
  case Nil
  show ?case
    by simp
next
  case (Cons token rest)
  have IH: "(\<exists>result. parse_challenge lib rest tk = Inr result)
            \<longleftrightarrow> (\<forall>token \<in> set rest. \<not> unparsable lib token)" for tk
    by (rule Cons.IH)
  show ?case
  proof (cases rule: SplitN2_cases [of "TrimSpace lib token" "CHR ''=''"])
    case (1 s)
    then have "\<not> unparsable lib token"
      by (simp add: unparsable_def)
    with 1 show ?thesis
      by (simp add: parse_challenge_step IH del: parse_challenge.simps)
  next
    case (2 k v)
    then have "unparsable lib token \<longleftrightarrow> v = [] \<or> v = [dquote]"
      by (simp add: unparsable_def)
    with 2 show ?thesis
      by (simp add: parse_challenge_step IH del: parse_challenge.simps)
  qed
qed

lemma parse_challenge_panics:
  "SplitN2 (TrimSpace lib token) (CHR ''='') = [k, []] \<Longrightarrow>
     parse_challenge lib (token # rest) tokens = Inl (IndexOutOfRange 0 0)"
  "SplitN2 (TrimSpace lib token) (CHR ''='') = [k, [dquote]] \<Longrightarrow>
     parse_challenge lib (token # rest) tokens = Inl (SliceBoundsOutOfRange 1 0)"
  by (simp_all add: parse_challenge_step  del: parse_challenge.simps)

text \<open>
  Claim C10. Parsing the challenge ends without a panic exactly when no
  comma-separated token has, after its first \<^verbatim>\<open>=\<close>, an empty value or a value that
  is one double quote alone. A token with an empty value makes \<^verbatim>\<open>kv[1][0]\<close> read
  index 0 of a string of length 0; a token whose value is one double quote makes the
  slice \<^verbatim>\<open>kv[1][1:0]\<close>. In both cases nothing is stored for the key.
\<close>

theorem parse_challenge_total_iff:
  "((\<exists>result. parse_challenge lib pieces tokens = Inr result)
      \<longleftrightarrow> (\<forall>token \<in> set pieces. \<not> unparsable lib token))
   \<and> (SplitN2 (TrimSpace lib token) (CHR ''='') = [k, []] \<longrightarrow>
        parse_challenge lib (token # rest) tokens = Inl (IndexOutOfRange 0 0))
   \<and> (SplitN2 (TrimSpace lib token) (CHR ''='') = [k, [dquote]] \<longrightarrow>
        parse_challenge lib (token # rest) tokens = Inl (SliceBoundsOutOfRange 1 0))"
  using parse_challenge_total [of lib pieces tokens] parse_challenge_panics [of lib token k rest tokens]
  by blast

theorem parse_challenge_total_iff_witness:
  "unparsable example_lib ''qop=''
   \<and> parse_challenge example_lib (Split ''realm=x, qop='' (CHR '','')) Map.empty
       = Inl (IndexOutOfRange 0 0)
   \<and> unparsable example_lib [CHR ''a'', CHR ''='', dquote]
   \<and> parse_challenge example_lib (Split [CHR ''a'', CHR ''='', dquote] (CHR '','')) Map.empty
       = Inl (SliceBoundsOutOfRange 1 0)
   \<and> \<not> unparsable example_lib ''nonce=abc'' \<and> \<not> unparsable example_lib ''qop=auth''
   \<and> (\<exists>result. parse_challenge example_lib (Split ''nonce=abc,qop=auth'' (CHR '','')) Map.empty
          = Inr result)"
proof -
  have ok: "\<forall>token \<in> set (Split ''nonce=abc,qop=auth'' (CHR '','')). \<not> unparsable example_lib token"
    by (simp add: unparsable_def example_lib_def is_space_def SplitN2_def dquote_def)
  have good: "\<exists>result. parse_challenge example_lib (Split ''nonce=abc,qop=auth'' (CHR '','')) Map.empty
          = Inr result"
    using ok parse_challenge_total_iff [where lib = example_lib and tokens = Map.empty
        and pieces = "Split ''nonce=abc,qop=auth'' (CHR '','')"]
    by blast
  have split1: "SplitN2 (TrimSpace example_lib '' qop='') (CHR ''='') = [''qop'', []]"
    by (simp add: example_lib_def is_space_def SplitN2_def)
  have split2: "SplitN2 (TrimSpace example_lib [CHR ''a'', CHR ''='', dquote]) (CHR ''='')
                = [''a'', [dquote]]"
    by (simp add: example_lib_def is_space_def SplitN2_def dquote_def)
  have bad1: "parse_challenge example_lib ['' qop=''] (Map.empty(''realm'' \<mapsto> ''x''))
              = Inl (IndexOutOfRange 0 0)"
    using split1 parse_challenge_total_iff [where lib = example_lib and token = "'' qop=''"
        and k = "''qop''" and rest = "[]" and tokens = "Map.empty(''realm'' \<mapsto> ''x'')"]
    by blast
  have bad2: "parse_challenge example_lib [[CHR ''a'', CHR ''='', dquote]] Map.empty
              = Inl (SliceBoundsOutOfRange 1 0)"
    using split2 parse_challenge_total_iff [where lib = example_lib
        and token = "[CHR ''a'', CHR ''='', dquote]" and k = "''a''" and rest = "[]"
        and tokens = Map.empty]
    by blast
  have "parse_challenge example_lib (Split ''realm=x, qop='' (CHR '','')) Map.empty
        = parse_challenge example_lib ['' qop=''] (Map.empty(''realm'' \<mapsto> ''x''))"
    by (simp add: example_lib_def is_space_def SplitN2_def dquote_def Let_def)
  with bad1 have run1: "parse_challenge example_lib (Split ''realm=x, qop='' (CHR '','')) Map.empty
        = Inl (IndexOutOfRange 0 0)"
    by simp
  have run2: "parse_challenge example_lib (Split [CHR ''a'', CHR ''='', dquote] (CHR '','')) Map.empty
        = Inl (SliceBoundsOutOfRange 1 0)"
    using bad2 by (simp add: dquote_def)
  have "unparsable example_lib ''qop=''"
    "unparsable example_lib [CHR ''a'', CHR ''='', dquote]"
    by (simp_all add: unparsable_def example_lib_def is_space_def SplitN2_def dquote_def)
  moreover have "\<not> unparsable example_lib ''nonce=abc''" "\<not> unparsable example_lib ''qop=auth''"
    using ok by simp_all
  ultimately show ?thesis
    using good run1 run2 by blast
qed

text \<open>The panic reaches the handshake: the DIGEST-MD5 exchange panics on such a challenge.\<close>

lemma digest_md5_panics_on_empty_value:
  "(case digest_md5 example_lib (Inr 255) ''user'' ''domain'' ''DIGEST-MD5''
           (example_client\<lparr>p := [challenge_token ''realm=x, qop='']\<rparr>) of
      Panics x c \<Rightarrow> x = IndexOutOfRange 0 0
    | _ \<Rightarrow> False)"
  by code_simp

subsection \<open>The handshake on the scripted server\<close>

text \<open>
  On the server of the scenario the handshake returns no error, has read all the
  server sent, and the bound JID is \<^verbatim>\<open>user@domain/res1\<close>.
\<close>

lemma handshake_on_scripted_server:
  "(case init example_lib (Inr 255)
           (example_client\<lparr>jid := [], conn := \<lparr>handle = 0, incoming = scripted_server\<rparr>\<rparr>) of
      Return r c \<Rightarrow> r = Inr () \<and> jid c = ''user@domain/res1'' \<and> p c = [] \<and> length (trace c) = 7
    | Panics x c \<Rightarrow> False
    | Blocks c \<Rightarrow> False)"
  by code_simp

end
